theory Spec2Isabelle
  imports Complex_Main "HOL-Library.Char_ord" "HOL-Library.List_Lexorder"
begin

section \<open>Python values used by the audit agent\<close>

text \<open>
  The audit agent (scripts/audit-agent) is Python. Exceptions are values of
  \<open>py_error\<close>; a function that can raise returns \<open>py_error + 'a\<close>, with
  \<open>Inl\<close> for the exception. A character of a string is a code point below
  U+0100: \<open>lower\<close>, \<open>strip\<close> and \<open>split\<close> are written for these.
\<close>

datatype py_error =
    KeyError string
  | ZeroDivisionError
  | OSError string
  | UnicodeDecodeError string
  | JSONDecodeError string

subsection \<open>Strings and paths\<close>

definition py_lower_char :: "char \<Rightarrow> char" where
  "py_lower_char c =
     (if (CHR ''A'' \<le> c \<and> c \<le> CHR ''Z'')
         \<or> (CHR 0xC0 \<le> c \<and> c \<le> CHR 0xDE \<and> c \<noteq> CHR 0xD7)
      then char_of (of_char c + (32::nat)) else c)"

definition py_lower :: "string \<Rightarrow> string" where
  "py_lower s = map py_lower_char s"

text \<open>\<open>s.replace(a, b)\<close> for one-character \<open>a\<close> and \<open>b\<close>.\<close>

definition py_replace :: "char \<Rightarrow> char \<Rightarrow> string \<Rightarrow> string" where
  "py_replace a b s = map (\<lambda>c. if c = a then b else c) s"

definition startswith :: "string \<Rightarrow> string \<Rightarrow> bool" where
  "startswith s p = (take (length p) s = p)"

text \<open>\<open>py_in sub s\<close> is Python's \<open>sub in s\<close> on strings.\<close>

fun py_in :: "string \<Rightarrow> string \<Rightarrow> bool" where
  "py_in sub [] = (sub = [])"
| "py_in sub (c # cs) = (startswith (c # cs) sub \<or> py_in sub cs)"

text \<open>\<open>sep.join(xs)\<close>.\<close>

fun py_join :: "string \<Rightarrow> string list \<Rightarrow> string" where
  "py_join sep [] = []"
| "py_join sep [x] = x"
| "py_join sep (x # y # ys) = x @ sep @ py_join sep (y # ys)"

text \<open>\<open>s.split(sep)\<close> for a one-character separator: never an empty list.\<close>

fun py_split :: "char \<Rightarrow> string \<Rightarrow> string list" where
  "py_split sep [] = [[]]"
| "py_split sep (c # cs) =
     (if c = sep then [] # py_split sep cs
      else (case py_split sep cs of
              [] \<Rightarrow> [[c]]
            | w # ws \<Rightarrow> (c # w) # ws))"

text \<open>The characters below U+0100 for which \<open>str.isspace\<close> holds.\<close>

definition is_space :: "char \<Rightarrow> bool" where
  "is_space c =
     (c \<in> set [CHR '' '', CHR 0x09, CHR 0x0A, CHR 0x0B, CHR 0x0C, CHR 0x0D,
                CHR 0x1C, CHR 0x1D, CHR 0x1E, CHR 0x1F, CHR 0x85, CHR 0xA0])"

text \<open>\<open>s.split()\<close>: the maximal runs of non-whitespace characters.\<close>

fun split_ws_acc :: "string \<Rightarrow> string \<Rightarrow> string list" where
  "split_ws_acc w [] = (if w = [] then [] else [rev w])"
| "split_ws_acc w (c # cs) =
     (if is_space c then (if w = [] then split_ws_acc [] cs else rev w # split_ws_acc [] cs)
      else split_ws_acc (c # w) cs)"

definition py_split_ws :: "string \<Rightarrow> string list" where
  "py_split_ws s = split_ws_acc [] s"

definition py_strip :: "string \<Rightarrow> string" where
  "py_strip s = rev (dropWhile is_space (rev (dropWhile is_space s)))"

text \<open>\<open>str(n)\<close> for a natural number, and \<open>str(x)\<close> for an optional string.\<close>

definition digit_char :: "nat \<Rightarrow> char" where
  "digit_char d = char_of (48 + d)"

fun str_nat :: "nat \<Rightarrow> string" where
  "str_nat n = (if n < 10 then [digit_char n] else str_nat (n div 10) @ [digit_char (n mod 10)])"

declare str_nat.simps [simp del]

definition str_opt :: "string option \<Rightarrow> string" where
  "str_opt x = (case x of None \<Rightarrow> ''None'' | Some s \<Rightarrow> s)"

text \<open>
  \<open>pathlib\<close> on POSIX paths: \<open>Path(p).name\<close> is the last component that is
  neither empty nor \<open>.\<close>, and \<open>Path(p).stem\<close> is the name without its last
  suffix; a leading dot or a trailing dot starts no suffix.
\<close>

definition path_name :: "string \<Rightarrow> string" where
  "path_name p =
     (case rev (filter (\<lambda>part. part \<noteq> [] \<and> part \<noteq> ''.'') (py_split (CHR ''/'') p)) of
        [] \<Rightarrow> []
      | n # _ \<Rightarrow> n)"

definition name_stem :: "string \<Rightarrow> string" where
  "name_stem n =
     (case dropWhile (\<lambda>c. c \<noteq> CHR ''.'') (rev n) of
        [] \<Rightarrow> n
      | _ # stem_rev \<Rightarrow>
          (if 0 < length stem_rev \<and> length stem_rev + 1 < length n then rev stem_rev else n))"

definition path_stem :: "string \<Rightarrow> string" where
  "path_stem p = name_stem (path_name p)"

subsection \<open>Floating-point numbers\<close>

text \<open>
  A Python \<open>float\<close> is an IEEE 754 binary64 number. The model holds a float
  as the rational number that is its exact value, and rounds the exact result of
  every operation to the nearest double, ties to even, as the hardware does.
  \<open>to_double\<close> is that rounding (the values of the agent lie between 0 and
  100, so overflow is left out); \<open>bit_length\<close> is \<open>int.bit_length\<close> and
  \<open>exponent_of x\<close> is the exponent \<open>e\<close> with \<open>2^e \<le> x < 2^(e+1)\<close>.
\<close>

definition round_half_even :: "rat \<Rightarrow> int" where
  "round_half_even x =
     (let f = \<lfloor>x\<rfloor>; d = x - of_int f
      in if d < 1 / 2 then f
         else if 1 / 2 < d then f + 1
         else if even f then f else f + 1)"

function bit_length :: "int \<Rightarrow> nat" where
  "bit_length n = (if n \<le> 0 then 0 else Suc (bit_length (n div 2)))"
  by pat_completeness auto
termination
  by (relation "measure nat") auto

declare bit_length.simps [simp del]

definition pow2 :: "int \<Rightarrow> rat" where
  "pow2 e = (if 0 \<le> e then 2 ^ nat e else 1 / 2 ^ nat (- e))"

definition exponent_of :: "rat \<Rightarrow> int" where
  "exponent_of x =
     (let (p, q) = quotient_of x;
          d = int (bit_length p) - int (bit_length q)
      in if pow2 d \<le> x then d else d - 1)"

definition to_double :: "rat \<Rightarrow> rat" where
  "to_double x =
     (if x = 0 then 0
      else (let a = \<bar>x\<bar>;
                e = max (exponent_of a) (- 1022);
                ulp = pow2 (e - 52);
                m = of_int (round_half_even (a / ulp)) * ulp
            in if x < 0 then - m else m))"

text \<open>
  \<open>a / b\<close> on two integers is the double nearest to the quotient, and raises
  for \<open>b = 0\<close>; \<open>x + y\<close>, \<open>x * y\<close> and \<open>x / y\<close> on floats round their exact
  result.
\<close>

definition int_truediv :: "nat \<Rightarrow> nat \<Rightarrow> rat" where
  "int_truediv a b = to_double (of_nat a / of_nat b)"

definition py_truediv :: "nat \<Rightarrow> nat \<Rightarrow> py_error + rat" where
  "py_truediv a b = (if b = 0 then Inl ZeroDivisionError else Inr (int_truediv a b))"

definition float_add :: "rat \<Rightarrow> rat \<Rightarrow> rat" where
  "float_add x y = to_double (x + y)"

definition float_mul :: "rat \<Rightarrow> rat \<Rightarrow> rat" where
  "float_mul x y = to_double (x * y)"

definition float_div :: "rat \<Rightarrow> rat \<Rightarrow> rat" where
  "float_div x y = to_double (x / y)"

text \<open>
  \<open>format_1f x\<close> is \<open>f"{x:.1f}"\<close> for a float \<open>x \<ge> 0\<close>: the exact value of
  \<open>x\<close> rounded to one decimal, half to even. \<open>py_round2 x\<close> is \<open>round(x, 2)\<close>:
  the exact value of \<open>x\<close> rounded to two decimals, half to even, and the double
  nearest to that decimal.
\<close>

definition format_1f :: "rat \<Rightarrow> string" where
  "format_1f x =
     (let t = nat (round_half_even (x * 10))
      in str_nat (t div 10) @ ''.'' @ str_nat (t mod 10))"

definition py_round2 :: "rat \<Rightarrow> rat" where
  "py_round2 x = to_double (of_int (round_half_even (x * 100)) / 100)"

text \<open>
  A loop that appends one result per element and stops at the first exception.
\<close>

fun collect :: "('a \<Rightarrow> py_error + 'b) \<Rightarrow> 'a list \<Rightarrow> py_error + 'b list" where
  "collect f [] = Inr []"
| "collect f (x # xs) =
     (case f x of
        Inl e \<Rightarrow> Inl e
      | Inr y \<Rightarrow> (case collect f xs of Inl e \<Rightarrow> Inl e | Inr ys \<Rightarrow> Inr (y # ys)))"

subsection \<open>The repository as the agent reads it\<close>

text \<open>
  What the agent reads of the repository root. \<open>present\<close> holds the paths,
  relative to the root, for which \<open>(repo_root / p).exists()\<close> is true among the
  marker files and directories that \<open>_detect_context\<close> looks at.
\<close>

record repo_markers =
  root :: string
  present :: "string set"

text \<open>
  An entry of \<open>.claude/rules/index.json\<close>: a JSON object whose keys may be
  missing. The index groups entries by category; the language, framework and
  cloud groups are JSON objects, kept in file order.
\<close>

record index_entry =
  entry_name :: "string option"
  entry_path :: "string option"
  entry_file :: "string option"
  entry_estimatedTokens :: "int option"

record rules_index =
  idx_base :: "index_entry list"
  idx_languages :: "(string \<times> index_entry list) list"
  idx_frameworks :: "(string \<times> index_entry list) list"
  idx_cloud :: "(string \<times> index_entry list) list"

text \<open>
  A markdown file of the corpus, with what \<open>open(...).read()\<close> gives for it,
  and a folder of \<open>languages/\<close>, \<open>frameworks/\<close> or \<open>cloud/\<close> with the
  files \<open>glob("*.md")\<close> lists, in the order it lists them.
\<close>

record md_file =
  md_name :: string
  md_data :: "py_error + string"

record sub_folder =
  folder_name :: string
  is_dir :: bool
  md_files :: "md_file list"

text \<open>
  The whole repository: \<open>None\<close> stands for a file or directory that does not
  exist, \<open>Some (Inl e)\<close> for a file whose reading raises \<open>e\<close>.
\<close>

record repo = repo_markers +
  index_json :: "(py_error + rules_index) option"
  agents_md :: "(py_error + string) option"
  base_dir :: "md_file list option"
  languages_dir :: "sub_folder list option"
  frameworks_dir :: "sub_folder list option"
  cloud_dir :: "sub_folder list option"
  archive_dir :: "string list option"

subsection \<open>Project context (core.py)\<close>

text \<open>
  The four facets of a context are also what the selection report echoes under
  its \<open>project_context\<close> key; \<open>ProjectContext\<close> adds the scanned root.
\<close>

record context_facets =
  languages :: "string list"
  frameworks :: "string list"
  cloud_providers :: "string list"
  maturity :: string

record ProjectContext = context_facets +
  working_directory :: string

definition exists_in :: "'a repo_markers_scheme \<Rightarrow> string \<Rightarrow> bool" where
  "exists_in r p = (p \<in> present r)"

text \<open>\<open>AuditAgent._detect_context\<close>: each \<open>if\<close> appends to the list built so far.\<close>

definition detect_languages :: "'a repo_markers_scheme \<Rightarrow> string list" where
  "detect_languages r =
     (if exists_in r ''requirements.txt'' \<or> exists_in r ''pyproject.toml''
      then [''python''] else [])
   @ (if exists_in r ''package.json''
      then (if exists_in r ''tsconfig.json'' then [''typescript''] else [''javascript''])
      else [])
   @ (if exists_in r ''go.mod'' then [''go''] else [])
   @ (if exists_in r ''pom.xml'' \<or> exists_in r ''build.gradle'' then [''java''] else [])
   @ (if exists_in r ''Cargo.toml'' then [''rust''] else [])"

definition detect_cloud_providers :: "'a repo_markers_scheme \<Rightarrow> string list" where
  "detect_cloud_providers r =
     (if exists_in r ''terraform'' then [''aws''] else [])
   @ (if exists_in r ''vercel.json'' then [''vercel''] else [])"

definition detect_maturity :: "'a repo_markers_scheme \<Rightarrow> string" where
  "detect_maturity r =
     (if exists_in r ''.github/workflows''
      then (if exists_in r ''Dockerfile'' then ''production'' else ''pre-production'')
      else ''mvp'')"

definition detect_context :: "'a repo_markers_scheme \<Rightarrow> ProjectContext" where
  "detect_context r =
     \<lparr> languages = detect_languages r,
       frameworks = [],
       cloud_providers = detect_cloud_providers r,
       maturity = detect_maturity r,
       working_directory = root r \<rparr>"

subsection \<open>Rule catalog loader and rule selector (rules_parser.py)\<close>

record RuleMetadata =
  rule_name :: string
  rule_path :: string
  rule_category :: string
  rule_language :: "string option"
  rule_framework :: "string option"
  rule_cloud_provider :: "string option"
  rule_topics :: "string list"
  rule_maturity :: "string list"
  estimated_tokens :: int

text \<open>The dictionary \<open>parse_index\<close> returns: one list per category key.\<close>

record parsed_rules =
  pr_base :: "RuleMetadata list"
  pr_language :: "RuleMetadata list"
  pr_framework :: "RuleMetadata list"
  pr_cloud :: "RuleMetadata list"

text \<open>\<open>RulesParser._extract_topics_from_path\<close>.\<close>

definition topic_keywords :: "(string \<times> string list) list" where
  "topic_keywords =
     [(''security'', [''security'', ''auth'', ''jwt'', ''oauth'']),
      (''testing'', [''testing'', ''test'', ''pytest'', ''jest'']),
      (''quality'', [''quality'', ''standards'', ''style'']),
      (''performance'', [''performance'', ''optimization'', ''cache'']),
      (''api'', [''api'', ''rest'', ''graphql'', ''endpoint'']),
      (''database'', [''database'', ''db'', ''sql'', ''query'']),
      (''deployment'', [''deployment'', ''deploy'', ''ci'', ''cd''])]"

definition extract_topics_from_path :: "string \<Rightarrow> string list" where
  "extract_topics_from_path path =
     (let filename = path_stem path;
          filename_lower = py_lower filename
      in map fst (filter (\<lambda>(topic, keywords). list_ex (\<lambda>keyword. py_in keyword filename_lower) keywords)
                         topic_keywords))"

text \<open>
  \<open>rule.get("path") or rule.get("file", "")\<close>: a missing or empty \<open>path\<close>
  falls through to \<open>file\<close>, and a missing \<open>file\<close> to the empty string.
\<close>

definition entry_rule_path :: "index_entry \<Rightarrow> string" where
  "entry_rule_path rule =
     (let file_or_empty = (case entry_file rule of None \<Rightarrow> [] | Some f \<Rightarrow> f)
      in case entry_path rule of
           None \<Rightarrow> file_or_empty
         | Some p \<Rightarrow> (if p = [] then file_or_empty else p))"

text \<open>\<open>rule["name"]\<close> raises \<open>KeyError\<close> when the key is missing.\<close>

definition entry_name_or_raise :: "index_entry \<Rightarrow> py_error + string" where
  "entry_name_or_raise rule =
     (case entry_name rule of None \<Rightarrow> Inl (KeyError ''name'') | Some n \<Rightarrow> Inr n)"

definition default_maturity :: "string list" where
  "default_maturity = [''mvp'', ''pre-production'', ''production'']"

text \<open>The bodies of the four loops of \<open>RulesParser.parse_index\<close>.\<close>

definition parse_base_rule :: "index_entry \<Rightarrow> py_error + RuleMetadata" where
  "parse_base_rule rule =
     (let path = entry_rule_path rule
      in case entry_name_or_raise rule of
           Inl e \<Rightarrow> Inl e
         | Inr n \<Rightarrow> Inr \<lparr> rule_name = n, rule_path = path, rule_category = ''base'',
                        rule_language = None, rule_framework = None, rule_cloud_provider = None,
                        rule_topics = extract_topics_from_path path,
                        rule_maturity = default_maturity,
                        estimated_tokens = (case entry_estimatedTokens rule of None \<Rightarrow> 800 | Some t \<Rightarrow> t) \<rparr>)"

definition parse_language_rule :: "string \<Rightarrow> index_entry \<Rightarrow> py_error + RuleMetadata" where
  "parse_language_rule lang rule =
     (let path = entry_rule_path rule
      in case entry_name_or_raise rule of
           Inl e \<Rightarrow> Inl e
         | Inr n \<Rightarrow> Inr \<lparr> rule_name = n, rule_path = path, rule_category = ''language'',
                        rule_language = Some lang, rule_framework = None, rule_cloud_provider = None,
                        rule_topics = extract_topics_from_path path,
                        rule_maturity = default_maturity,
                        estimated_tokens = (case entry_estimatedTokens rule of None \<Rightarrow> 1000 | Some t \<Rightarrow> t) \<rparr>)"

definition parse_framework_rule :: "string \<Rightarrow> index_entry \<Rightarrow> py_error + RuleMetadata" where
  "parse_framework_rule framework rule =
     (let path = entry_rule_path rule
      in case entry_name_or_raise rule of
           Inl e \<Rightarrow> Inl e
         | Inr n \<Rightarrow> Inr \<lparr> rule_name = n, rule_path = path, rule_category = ''framework'',
                        rule_language = None, rule_framework = Some framework, rule_cloud_provider = None,
                        rule_topics = extract_topics_from_path path,
                        rule_maturity = default_maturity,
                        estimated_tokens = (case entry_estimatedTokens rule of None \<Rightarrow> 1200 | Some t \<Rightarrow> t) \<rparr>)"

definition parse_cloud_rule :: "string \<Rightarrow> index_entry \<Rightarrow> py_error + RuleMetadata" where
  "parse_cloud_rule cloud rule =
     (let path = entry_rule_path rule
      in case entry_name_or_raise rule of
           Inl e \<Rightarrow> Inl e
         | Inr n \<Rightarrow> Inr \<lparr> rule_name = n, rule_path = path, rule_category = ''cloud'',
                        rule_language = None, rule_framework = None, rule_cloud_provider = Some cloud,
                        rule_topics = extract_topics_from_path path,
                        rule_maturity = default_maturity,
                        estimated_tokens = (case entry_estimatedTokens rule of None \<Rightarrow> 1400 | Some t \<Rightarrow> t) \<rparr>)"

text \<open>
  \<open>for key, rules in group.items(): for rule in rules: ...\<close>: the nested loop
  over one of the keyed groups, appending in order.
\<close>

definition collect_groups ::
  "(string \<Rightarrow> index_entry \<Rightarrow> py_error + RuleMetadata) \<Rightarrow> (string \<times> index_entry list) list
     \<Rightarrow> py_error + RuleMetadata list" where
  "collect_groups f groups =
     (case collect (\<lambda>(key, rules). collect (f key) rules) groups of
        Inl e \<Rightarrow> Inl e
      | Inr rss \<Rightarrow> Inr (concat rss))"

definition parse_index :: "repo \<Rightarrow> py_error + parsed_rules" where
  "parse_index r =
     (case index_json r of
        None \<Rightarrow> Inr \<lparr> pr_base = [], pr_language = [], pr_framework = [], pr_cloud = [] \<rparr>
      | Some (Inl e) \<Rightarrow> Inl e
      | Some (Inr index) \<Rightarrow>
          (case collect parse_base_rule (idx_base index) of
             Inl e \<Rightarrow> Inl e
           | Inr bs \<Rightarrow>
          (case collect_groups parse_language_rule (idx_languages index) of
             Inl e \<Rightarrow> Inl e
           | Inr ls \<Rightarrow>
          (case collect_groups parse_framework_rule (idx_frameworks index) of
             Inl e \<Rightarrow> Inl e
           | Inr fs \<Rightarrow>
          (case collect_groups parse_cloud_rule (idx_cloud index) of
             Inl e \<Rightarrow> Inl e
           | Inr cs \<Rightarrow>
               Inr \<lparr> pr_base = bs, pr_language = ls, pr_framework = fs, pr_cloud = cs \<rparr>)))))"

text \<open>\<open>RulesParser.generate_selection_report\<close>.\<close>

record Reasoning =
  reasoning_rule :: string
  reason :: string
  score :: nat

record Breakdown =
  breakdown_base :: nat
  breakdown_language :: nat
  breakdown_framework :: nat
  breakdown_cloud :: nat

record SelectionReport =
  total_rules_available :: nat
  total_rules_selected :: nat
  total_estimated_tokens :: int
  selection_efficiency :: string
  selected_rules :: "RuleMetadata list"
  selection_reasoning :: "Reasoning list"
  breakdown :: Breakdown
  project_context :: context_facets

definition critical_base :: "string list" where
  "critical_base = [''code-quality'', ''security-principles'', ''git-workflow'']"

text \<open>\<open>x in xs\<close> for an optional string \<open>x\<close> and a list of strings.\<close>

definition opt_in :: "string option \<Rightarrow> string list \<Rightarrow> bool" where
  "opt_in x xs = (case x of None \<Rightarrow> False | Some s \<Rightarrow> s \<in> set xs)"

definition is_critical :: "RuleMetadata \<Rightarrow> bool" where
  "is_critical rule = (path_stem (rule_path rule) \<in> set critical_base)"

definition select_rules ::
  "parsed_rules \<Rightarrow> string list \<Rightarrow> string list \<Rightarrow> string list \<Rightarrow> RuleMetadata list" where
  "select_rules all_rules project_languages project_frameworks project_cloud =
     filter is_critical (pr_base all_rules)
   @ filter (\<lambda>rule. opt_in (rule_language rule) project_languages) (pr_language all_rules)
   @ filter (\<lambda>rule. opt_in (rule_framework rule) project_frameworks) (pr_framework all_rules)
   @ filter (\<lambda>rule. opt_in (rule_cloud_provider rule) project_cloud) (pr_cloud all_rules)"

definition select_reasoning ::
  "parsed_rules \<Rightarrow> string list \<Rightarrow> string list \<Rightarrow> string list \<Rightarrow> Reasoning list" where
  "select_reasoning all_rules project_languages project_frameworks project_cloud =
     map (\<lambda>rule. \<lparr> reasoning_rule = rule_name rule, reason = ''Critical base rule'', score = 100 \<rparr>)
       (filter is_critical (pr_base all_rules))
   @ map (\<lambda>rule. \<lparr> reasoning_rule = rule_name rule,
                    reason = ''Matches project language: '' @ str_opt (rule_language rule),
                    score = 90 \<rparr>)
       (filter (\<lambda>rule. opt_in (rule_language rule) project_languages) (pr_language all_rules))
   @ map (\<lambda>rule. \<lparr> reasoning_rule = rule_name rule,
                    reason = ''Matches project framework: '' @ str_opt (rule_framework rule),
                    score = 90 \<rparr>)
       (filter (\<lambda>rule. opt_in (rule_framework rule) project_frameworks) (pr_framework all_rules))
   @ map (\<lambda>rule. \<lparr> reasoning_rule = rule_name rule,
                    reason = ''Matches cloud provider: '' @ str_opt (rule_cloud_provider rule),
                    score = 85 \<rparr>)
       (filter (\<lambda>rule. opt_in (rule_cloud_provider rule) project_cloud) (pr_cloud all_rules))"

definition count_category :: "string \<Rightarrow> RuleMetadata list \<Rightarrow> nat" where
  "count_category c rules = length (filter (\<lambda>r. rule_category r = c) rules)"

definition efficiency_string :: "nat \<Rightarrow> nat \<Rightarrow> string" where
  "efficiency_string total_selected total_available =
     (if total_available > 0
      then format_1f (float_mul (int_truediv total_selected total_available) 100) @ ''%''
      else ''0%'')"

definition generate_selection_report ::
  "repo \<Rightarrow> string list \<Rightarrow> string list \<Rightarrow> string list \<Rightarrow> string \<Rightarrow> py_error + SelectionReport" where
  "generate_selection_report r project_languages project_frameworks project_cloud project_maturity =
     (case parse_index r of
        Inl e \<Rightarrow> Inl e
      | Inr all_rules \<Rightarrow>
          (let selected = select_rules all_rules project_languages project_frameworks project_cloud;
               total_available = length (pr_base all_rules) + length (pr_language all_rules)
                                 + length (pr_framework all_rules) + length (pr_cloud all_rules);
               total_selected = length selected;
               total_tokens = sum_list (map estimated_tokens selected)
           in Inr \<lparr> total_rules_available = total_available,
                    total_rules_selected = total_selected,
                    total_estimated_tokens = total_tokens,
                    selection_efficiency = efficiency_string total_selected total_available,
                    selected_rules = selected,
                    selection_reasoning =
                      select_reasoning all_rules project_languages project_frameworks project_cloud,
                    breakdown =
                      \<lparr> breakdown_base = count_category ''base'' selected,
                        breakdown_language = count_category ''language'' selected,
                        breakdown_framework = count_category ''framework'' selected,
                        breakdown_cloud = count_category ''cloud'' selected \<rparr>,
                    project_context =
                      \<lparr> languages = project_languages, frameworks = project_frameworks,
                        cloud_providers = project_cloud, maturity = project_maturity \<rparr> \<rparr>))"

subsection \<open>The Python runtime\<close>

text \<open>
  Two parts of the Python runtime are parameters of the model, and every theorem
  below holds for all of them: the regular-expression engine of the standard
  library (\<open>re.findall\<close> for a pattern with one group, \<open>re.finditer\<close> with
  \<open>match.groups()\<close> for a pattern with two groups, \<open>re.sub\<close>), and the order in
  which a set of strings is iterated, which CPython leaves unspecified.
\<close>

datatype re_flag = MULTILINE | DOTALL | IGNORECASE

record py_lib =
  re_findall :: "string \<Rightarrow> re_flag list \<Rightarrow> string \<Rightarrow> string list"
  re_groups2 :: "string \<Rightarrow> re_flag list \<Rightarrow> string \<Rightarrow> (string \<times> string) list"
  re_sub :: "string \<Rightarrow> string \<Rightarrow> re_flag list \<Rightarrow> string \<Rightarrow> string"
  set_iter :: "string set \<Rightarrow> string list"

text \<open>The backslash of a pattern.\<close>

definition backslash :: string where
  "backslash = [CHR 0x5C]"

subsection \<open>Content consistency analyzer (mece_analyzer.py)\<close>

text \<open>
  The profile of one document. The field \<open>keywords\<close> of the source is
  \<open>keyword_tags\<close> here.
\<close>

record ContentAnalysis =
  file_path :: string
  category :: string
  topics :: "string set"
  keyword_tags :: "string set"
  headings :: "string list"
  code_blocks :: "string list"
  word_count :: nat

record OverlapReport =
  file1 :: string
  file2 :: string
  overlap_score :: rat
  common_keywords :: "string list"
  common_topics :: "string list"

record GapReport =
  gap_category :: string
  missing_topics :: "string list"
  recommendation :: string

text \<open>\<open>MECEAnalyzer.expected_topics\<close>, one constant per key of the table.\<close>

definition expected_topics_base :: "string list" where
  "expected_topics_base =
     [''code-quality'', ''security'', ''testing'', ''git'', ''architecture'',
      ''refactoring'', ''documentation'', ''error-handling'', ''logging'']"

definition expected_topics_language :: "(string \<times> string list) list" where
  "expected_topics_language =
     [(''python'', [''coding-standards'', ''testing'', ''async'', ''packaging'']),
      (''typescript'', [''coding-standards'', ''testing'', ''types'', ''async'']),
      (''go'', [''coding-standards'', ''testing'', ''concurrency'', ''error-handling'']),
      (''java'', [''coding-standards'', ''testing'', ''spring'', ''design-patterns'']),
      (''rust'', [''coding-standards'', ''testing'', ''ownership'', ''error-handling''])]"

definition expected_topics_framework :: "(string \<times> string list) list" where
  "expected_topics_framework =
     [(''fastapi'', [''routing'', ''async'', ''testing'', ''validation'', ''auth'']),
      (''django'', [''models'', ''views'', ''testing'', ''authentication'', ''admin'']),
      (''react'', [''components'', ''hooks'', ''testing'', ''state'', ''routing'']),
      (''nextjs'', [''routing'', ''ssr'', ''api-routes'', ''testing'', ''optimization''])]"

definition expected_topics_cloud :: "(string \<times> string list) list" where
  "expected_topics_cloud =
     [(''aws'', [''iam'', ''security'', ''deployment'', ''monitoring'', ''cost-optimization'']),
      (''vercel'', [''deployment'', ''environment'', ''performance'', ''preview''])]"

text \<open>\<open>MECEAnalyzer._extract_keywords\<close>.\<close>

definition fenced_pattern :: string where
  "fenced_pattern = ''```.*?```''"

definition keyword_patterns :: "string list" where
  "keyword_patterns =
     [backslash @ ''b(async|await|promise)'' @ backslash @ ''b'',
      backslash @ ''b(test|testing|pytest|jest)'' @ backslash @ ''b'',
      backslash @ ''b(security|authentication|authorization)'' @ backslash @ ''b'',
      backslash @ ''b(api|endpoint|route|handler)'' @ backslash @ ''b'',
      backslash @ ''b(database|query|sql|orm)'' @ backslash @ ''b'',
      backslash @ ''b(deployment|ci|cd|docker)'' @ backslash @ ''b'',
      backslash @ ''b(error|exception|logging)'' @ backslash @ ''b'',
      backslash @ ''b(performance|optimization|cache)'' @ backslash @ ''b'']"

definition extract_keywords :: "py_lib \<Rightarrow> string \<Rightarrow> string set" where
  "extract_keywords lib content =
     (let content_no_code = re_sub lib fenced_pattern [] [DOTALL] content
      in fold (\<lambda>pattern found.
                 found \<union> set (map py_lower (re_findall lib pattern [IGNORECASE] content_no_code)))
           keyword_patterns {})"

text \<open>\<open>MECEAnalyzer._extract_topics\<close>.\<close>

definition topic_noise_pattern :: string where
  "topic_noise_pattern = ''[^'' @ backslash @ ''w'' @ backslash @ ''s-]''"

definition extract_topics :: "py_lib \<Rightarrow> string \<Rightarrow> string list \<Rightarrow> string set" where
  "extract_topics lib filename heading_list =
     fold (\<lambda>heading found.
             (let normalized = py_strip (py_lower heading);
                  normalized = re_sub lib topic_noise_pattern [] [] normalized
              in insert normalized found))
       heading_list {py_replace (CHR ''-'') (CHR '' '') (py_lower filename)}"

text \<open>
  \<open>MECEAnalyzer._analyze_file\<close>, for the file \<open>f\<close> of the directory \<open>dir\<close>
  (relative to the root). Opening or decoding the file may raise.
\<close>

definition heading_pattern :: string where
  "heading_pattern = ''^#+'' @ backslash @ ''s+(.+)$''"

definition code_block_pattern :: string where
  "code_block_pattern = ''```'' @ backslash @ ''w*'' @ backslash @ ''n(.*?)```''"

definition analyze_file :: "py_lib \<Rightarrow> string \<Rightarrow> md_file \<Rightarrow> string \<Rightarrow> py_error + ContentAnalysis" where
  "analyze_file lib dir f cat =
     (case md_data f of
        Inl e \<Rightarrow> Inl e
      | Inr content \<Rightarrow>
          (let hs = re_findall lib heading_pattern [MULTILINE] content;
               cbs = re_findall lib code_block_pattern [DOTALL] content;
               ks = extract_keywords lib content;
               ts = extract_topics lib (name_stem (md_name f)) hs;
               wc = length (py_split_ws content)
           in Inr \<lparr> file_path = dir @ ''/'' @ md_name f, category = cat, topics = ts,
                    keyword_tags = ks, headings = hs, code_blocks = cbs, word_count = wc \<rparr>))"

text \<open>
  \<open>MECEAnalyzer._analyze_all_files\<close>. The three nested scans differ in the
  directory and in the category prefix only.
\<close>

definition analyze_folder :: "py_lib \<Rightarrow> string \<Rightarrow> string \<Rightarrow> sub_folder \<Rightarrow> py_error + ContentAnalysis list" where
  "analyze_folder lib topdir cat_prefix folder =
     (if is_dir folder
      then collect (\<lambda>md. analyze_file lib (topdir @ ''/'' @ folder_name folder) md
                            (cat_prefix @ ''/'' @ folder_name folder))
             (md_files folder)
      else Inr [])"

definition analyze_folders ::
  "py_lib \<Rightarrow> string \<Rightarrow> string \<Rightarrow> sub_folder list option \<Rightarrow> py_error + ContentAnalysis list" where
  "analyze_folders lib topdir cat_prefix d =
     (case d of
        None \<Rightarrow> Inr []
      | Some folders \<Rightarrow>
          (case collect (analyze_folder lib topdir cat_prefix) folders of
             Inl e \<Rightarrow> Inl e
           | Inr found \<Rightarrow> Inr (concat found)))"

definition analyze_base :: "py_lib \<Rightarrow> md_file list option \<Rightarrow> py_error + ContentAnalysis list" where
  "analyze_base lib d =
     (case d of
        None \<Rightarrow> Inr []
      | Some mds \<Rightarrow> collect (\<lambda>md. analyze_file lib ''base'' md ''base'') mds)"

definition analyze_all_files :: "py_lib \<Rightarrow> repo \<Rightarrow> py_error + ContentAnalysis list" where
  "analyze_all_files lib r =
     (case analyze_base lib (base_dir r) of
        Inl e \<Rightarrow> Inl e
      | Inr bs \<Rightarrow>
     (case analyze_folders lib ''languages'' ''language'' (languages_dir r) of
        Inl e \<Rightarrow> Inl e
      | Inr ls \<Rightarrow>
     (case analyze_folders lib ''frameworks'' ''framework'' (frameworks_dir r) of
        Inl e \<Rightarrow> Inl e
      | Inr fs \<Rightarrow>
     (case analyze_folders lib ''cloud'' ''cloud'' (cloud_dir r) of
        Inl e \<Rightarrow> Inl e
      | Inr cs \<Rightarrow> Inr (bs @ ls @ fs @ cs)))))"

text \<open>
  \<open>MECEAnalyzer._find_overlaps\<close>. \<open>overlap_score_of\<close> is the score of a pair
  that passed the pre-filter (the two divisions and their mean);
  \<open>compare_pair\<close> is the body of the inner loop, with the report it appends,
  if any.
\<close>

definition overlap_score_of :: "ContentAnalysis \<Rightarrow> ContentAnalysis \<Rightarrow> py_error + rat" where
  "overlap_score_of analysis1 analysis2 =
     (let ck = keyword_tags analysis1 \<inter> keyword_tags analysis2;
          ct = topics analysis1 \<inter> topics analysis2
      in case py_truediv (card ck) (max (card (keyword_tags analysis1)) (card (keyword_tags analysis2))) of
           Inl e \<Rightarrow> Inl e
         | Inr keyword_overlap \<Rightarrow>
             (case py_truediv (card ct) (max (card (topics analysis1)) (card (topics analysis2))) of
                Inl e \<Rightarrow> Inl e
              | Inr topic_overlap \<Rightarrow> Inr (float_div (float_add keyword_overlap topic_overlap) 2)))"

definition compare_pair :: "ContentAnalysis \<Rightarrow> ContentAnalysis \<Rightarrow> py_error + OverlapReport list" where
  "compare_pair analysis1 analysis2 =
     (if category analysis1 \<noteq> category analysis2 then Inr []
      else
        (let ck = keyword_tags analysis1 \<inter> keyword_tags analysis2;
             ct = topics analysis1 \<inter> topics analysis2
         in if card ck > 3 \<or> card ct > 2
            then (case overlap_score_of analysis1 analysis2 of
                    Inl e \<Rightarrow> Inl e
                  | Inr s \<Rightarrow>
                      (if s > to_double (3 / 10)
                       then Inr [\<lparr> file1 = file_path analysis1, file2 = file_path analysis2,
                                   overlap_score = py_round2 s,
                                   common_keywords = take 10 (sorted_list_of_set ck),
                                   common_topics = take 5 (sorted_list_of_set ct) \<rparr>]
                       else Inr []))
            else Inr []))"

fun overlap_pairs :: "ContentAnalysis list \<Rightarrow> py_error + OverlapReport list" where
  "overlap_pairs [] = Inr []"
| "overlap_pairs (analysis1 # rest) =
     (case collect (compare_pair analysis1) rest of
        Inl e \<Rightarrow> Inl e
      | Inr found \<Rightarrow>
          (case overlap_pairs rest of
             Inl e \<Rightarrow> Inl e
           | Inr later \<Rightarrow> Inr (concat found @ later)))"

text \<open>The final sort is stable and descending in the score.\<close>

definition find_overlaps :: "ContentAnalysis list \<Rightarrow> py_error + OverlapReport list" where
  "find_overlaps analyses =
     (case overlap_pairs analyses of
        Inl e \<Rightarrow> Inl e
      | Inr overlaps \<Rightarrow> Inr (sort_key (\<lambda>x. - overlap_score x) overlaps))"

text \<open>
  \<open>MECEAnalyzer._find_gaps\<close>. \<open>topic_found\<close> is the test
  \<open>expected.replace('-', ' ') in ' '.join(topics)\<close>. The function reads the
  \<open>base\<close> and \<open>language\<close> keys of the table and no other.
\<close>

definition union_topics :: "ContentAnalysis list \<Rightarrow> string set" where
  "union_topics analyses = fold (\<lambda>analysis ts. ts \<union> topics analysis) analyses {}"

definition topic_found :: "py_lib \<Rightarrow> string \<Rightarrow> string set \<Rightarrow> bool" where
  "topic_found lib expected ts =
     py_in (py_replace (CHR ''-'') (CHR '' '') expected) (py_join '' '' (set_iter lib ts))"

definition base_gaps :: "py_lib \<Rightarrow> ContentAnalysis list \<Rightarrow> GapReport list" where
  "base_gaps lib analyses =
     (let base_analyses = filter (\<lambda>a. category a = ''base'') analyses;
          base_topics = union_topics base_analyses
      in map (\<lambda>expected.
                \<lparr> gap_category = ''base'', missing_topics = [expected],
                  recommendation = ''Create base/'' @ expected @ ''.md to cover ''
                     @ py_replace (CHR ''-'') (CHR '' '') expected @ '' best practices'' \<rparr>)
           (filter (\<lambda>expected. \<not> topic_found lib expected base_topics) expected_topics_base))"

text \<open>
  \<open>lang_analyses[lang]\<close>: the analyses whose category starts with
  \<open>language/\<close> and has \<open>lang\<close> as its second component.
\<close>

definition category_lang :: "string \<Rightarrow> string" where
  "category_lang c = (case py_split (CHR ''/'') c of _ # lang # _ \<Rightarrow> lang | _ \<Rightarrow> [])"

definition lang_analyses :: "ContentAnalysis list \<Rightarrow> string \<Rightarrow> ContentAnalysis list" where
  "lang_analyses analyses lang =
     filter (\<lambda>a. startswith (category a) ''language/'' \<and> category_lang (category a) = lang) analyses"

definition language_gaps_for :: "py_lib \<Rightarrow> ContentAnalysis list \<Rightarrow> string \<Rightarrow> string list \<Rightarrow> GapReport list" where
  "language_gaps_for lib analyses lang expected_topics =
     (if lang_analyses analyses lang = []
      then [\<lparr> gap_category = ''language/'' @ lang, missing_topics = expected_topics,
               recommendation = ''Add '' @ lang @ '' language support with rules covering ''
                  @ py_join '', '' expected_topics \<rparr>]
      else
        (let lang_topics = union_topics (lang_analyses analyses lang)
         in map (\<lambda>expected.
                   \<lparr> gap_category = ''language/'' @ lang, missing_topics = [expected],
                     recommendation = ''Add languages/'' @ lang @ ''/'' @ expected @ ''.md'' \<rparr>)
              (filter (\<lambda>expected. \<not> topic_found lib expected lang_topics) expected_topics)))"

definition find_gaps :: "py_lib \<Rightarrow> ContentAnalysis list \<Rightarrow> GapReport list" where
  "find_gaps lib analyses =
     base_gaps lib analyses
   @ concat (map (\<lambda>(lang, expected_topics). language_gaps_for lib analyses lang expected_topics)
               expected_topics_language)"

text \<open>\<open>MECEAnalyzer._calculate_mece_score\<close> and \<open>_generate_summary\<close>.\<close>

definition calculate_mece_score :: "nat \<Rightarrow> nat \<Rightarrow> nat \<Rightarrow> string" where
  "calculate_mece_score overlaps gaps total_files =
     (let penalty = int overlaps * 2 + int gaps * 3;
          score = max 0 (100 - penalty)
      in if score \<ge> 90 then str_nat (nat score) @ ''% - Excellent''
         else if score \<ge> 70 then str_nat (nat score) @ ''% - Good''
         else if score \<ge> 50 then str_nat (nat score) @ ''% - Fair''
         else str_nat (nat score) @ ''% - Needs Improvement'')"

fun count_key :: "string \<Rightarrow> (string \<times> nat) list \<Rightarrow> (string \<times> nat) list" where
  "count_key k [] = [(k, 1)]"
| "count_key k ((k', n) # kvs) = (if k = k' then (k', n + 1) # kvs else (k', n) # count_key k kvs)"

record Summary =
  total_files :: nat
  by_category :: "(string \<times> nat) list"
  high_overlap_count :: nat
  critical_gaps :: nat
  mece_score :: string

definition generate_summary :: "ContentAnalysis list \<Rightarrow> OverlapReport list \<Rightarrow> GapReport list \<Rightarrow> Summary" where
  "generate_summary analyses overlaps gaps =
     \<lparr> total_files = length analyses,
       by_category = fold (\<lambda>analysis counts. count_key (hd (py_split (CHR ''/'') (category analysis))) counts)
                       analyses [],
       high_overlap_count = length (filter (\<lambda>x. overlap_score x > to_double (1 / 2)) overlaps),
       critical_gaps = length (filter (\<lambda>g. gap_category g = ''base'') gaps),
       mece_score = calculate_mece_score (length overlaps) (length gaps) (length analyses) \<rparr>"

text \<open>\<open>MECEAnalyzer.analyze\<close>.\<close>

record AnalysisResult =
  files_analyzed :: nat
  total_overlaps :: nat
  total_gaps :: nat
  overlap_reports :: "OverlapReport list"
  gap_reports :: "GapReport list"
  summary :: Summary

definition analyze :: "py_lib \<Rightarrow> repo \<Rightarrow> py_error + AnalysisResult" where
  "analyze lib r =
     (case analyze_all_files lib r of
        Inl e \<Rightarrow> Inl e
      | Inr analyses \<Rightarrow>
          (case find_overlaps analyses of
             Inl e \<Rightarrow> Inl e
           | Inr overlaps \<Rightarrow>
               (let gaps = find_gaps lib analyses
                in Inr \<lparr> files_analyzed = length analyses,
                         total_overlaps = length overlaps,
                         total_gaps = length gaps,
                         overlap_reports = take 10 overlaps,
                         gap_reports = gaps,
                         summary = generate_summary analyses overlaps gaps \<rparr>)))"

subsection \<open>Narrative reference document (rules_parser.py)\<close>

text \<open>
  \<open>RulesParser.parse_agents_md\<close>: the links to rule files and the fenced,
  language-tagged code samples of \<open>AGENTS.md\<close>.
\<close>

record AgentsData =
  agents_rules :: "(string \<times> string) list"
  agents_patterns :: "(string \<times> string) list"
  total_references :: nat
  languages_covered :: "string list"

definition link_pattern :: string where
  "link_pattern =
     backslash @ ''[([^'' @ backslash @ '']]+)'' @ backslash @ '']'' @ backslash
       @ ''(([^)]+'' @ backslash @ ''.md)'' @ backslash @ '')''"

definition code_pattern :: string where
  "code_pattern = ''```('' @ backslash @ ''w+)'' @ backslash @ ''n(.*?)```''"

definition parse_agents_md :: "py_lib \<Rightarrow> repo \<Rightarrow> py_error + AgentsData" where
  "parse_agents_md lib r =
     (case agents_md r of
        None \<Rightarrow> Inr \<lparr> agents_rules = [], agents_patterns = [], total_references = 0,
                        languages_covered = [] \<rparr>
      | Some (Inl e) \<Rightarrow> Inl e
      | Some (Inr content) \<Rightarrow>
          (let rule_refs = re_groups2 lib link_pattern [] content;
               found = map (\<lambda>(language, code). (language, py_strip code))
                         (re_groups2 lib code_pattern [DOTALL] content)
           in Inr \<lparr> agents_rules = rule_refs, agents_patterns = found,
                    total_references = length rule_refs,
                    languages_covered = set_iter lib (set (map fst found)) \<rparr>))"

subsection \<open>Audit orchestrator (core.py)\<close>

record AuditConfig =
  depth :: string
  enable_citations :: bool
  enable_beads_generation :: bool
  enable_pr_suggestions :: bool
  max_tasks_per_finding :: int

record AgentsAnalysis =
  analysis_total_references :: nat
  analysis_languages_covered :: "string list"

record RulesReport = SelectionReport +
  agents_md_analysis :: AgentsAnalysis

record AccuracyAudit =
  files_audited :: nat
  issues_found :: nat
  status :: string

record Recommendation =
  rec_file :: string
  rec_status :: string
  rec_action :: string

record Disposition =
  disposition_total_files :: nat
  redundant :: nat
  obsolete :: nat
  unused :: nat
  active :: nat
  recommendations :: "Recommendation list"

text \<open>
  \<open>AuditResult\<close>: an optional field that is \<open>None\<close> stands for a stage that
  did not run. \<open>run\<close> never sets \<open>beads_tasks\<close> and \<open>patch_suggestions\<close>. The
  field \<open>context\<close> of the source is \<open>audit_context\<close> here.
\<close>

record AuditResult =
  timestamp :: string
  audit_context :: ProjectContext
  rules_selection_report :: RulesReport
  mece_content_map :: "AnalysisResult option"
  accuracy_audit :: "AccuracyAudit option"
  file_disposition :: "Disposition option"
  beads_tasks :: "string list option"
  patch_suggestions :: "string option"

text \<open>\<open>AuditAgent._generate_rules_report\<close>.\<close>

definition generate_rules_report :: "py_lib \<Rightarrow> repo \<Rightarrow> ProjectContext \<Rightarrow> py_error + RulesReport" where
  "generate_rules_report lib r c =
     (case generate_selection_report r (languages c) (frameworks c) (cloud_providers c) (maturity c) of
        Inl e \<Rightarrow> Inl e
      | Inr report \<Rightarrow>
          (case parse_agents_md lib r of
             Inl e \<Rightarrow> Inl e
           | Inr agents_data \<Rightarrow>
               Inr (SelectionReport.extend report
                      \<lparr> agents_md_analysis =
                          \<lparr> analysis_total_references = total_references agents_data,
                            analysis_languages_covered = languages_covered agents_data \<rparr> \<rparr>)))"

text \<open>\<open>AuditAgent._create_mece_map\<close>, \<open>_run_accuracy_audit\<close>, \<open>_analyze_disposition\<close>.\<close>

definition create_mece_map :: "py_lib \<Rightarrow> repo \<Rightarrow> py_error + AnalysisResult" where
  "create_mece_map lib r = analyze lib r"

definition run_accuracy_audit :: AccuracyAudit where
  "run_accuracy_audit = \<lparr> files_audited = 0, issues_found = 0, status = ''not_implemented_yet'' \<rparr>"

definition analyze_disposition :: "repo \<Rightarrow> Disposition" where
  "analyze_disposition r =
     (let archive_files = (case archive_dir r of None \<Rightarrow> [] | Some names \<Rightarrow> names)
      in \<lparr> disposition_total_files = length archive_files,
           redundant = length archive_files,
           obsolete = length archive_files,
           unused = 0,
           active = 0,
           recommendations =
             map (\<lambda>f. \<lparr> rec_file = ''archive/'' @ f, rec_status = ''obsolete'',
                         rec_action = ''delete'' \<rparr>)
               (take 5 archive_files) \<rparr>)"

text \<open>
  \<open>AuditAgent.run\<close>, without its printing; \<open>now\<close> is
  \<open>datetime.now().isoformat()\<close>. An exception of a stage leaves \<open>run\<close>.
\<close>

definition run :: "py_lib \<Rightarrow> string \<Rightarrow> AuditConfig \<Rightarrow> repo \<Rightarrow> py_error + AuditResult" where
  "run lib now config r =
     (let c = detect_context r
      in case generate_rules_report lib r c of
           Inl e \<Rightarrow> Inl e
         | Inr rules_report \<Rightarrow>
             (case (if depth config \<in> set [''standard'', ''full'']
                    then (case create_mece_map lib r of Inl e \<Rightarrow> Inl e | Inr m \<Rightarrow> Inr (Some m))
                    else Inr None) of
                Inl e \<Rightarrow> Inl e
              | Inr mece_map \<Rightarrow>
                  (let accuracy = (if depth config = ''full'' \<and> enable_citations config
                                   then Some run_accuracy_audit else None);
                       disposition = (if depth config \<in> set [''standard'', ''full'']
                                      then Some (analyze_disposition r) else None)
                   in Inr \<lparr> timestamp = now,
                            audit_context = c,
                            rules_selection_report = rules_report,
                            mece_content_map = mece_map,
                            accuracy_audit = accuracy,
                            file_disposition = disposition,
                            beads_tasks = None,
                            patch_suggestions = None \<rparr>)))"

subsection \<open>Notions used to state the properties\<close>

text \<open>
  A runtime for documents without text: on the empty string the patterns above
  match nowhere and \<open>re.sub\<close> returns the string as it is. Sets are iterated in
  sorted order.
\<close>

definition blank_lib :: py_lib where
  "blank_lib =
     \<lparr> re_findall = (\<lambda>pattern flags s. []),
       re_groups2 = (\<lambda>pattern flags s. []),
       re_sub = (\<lambda>pattern repl flags s. s),
       set_iter = sorted_list_of_set \<rparr>"

text \<open>Every entry of the index, of any category.\<close>

definition index_entries :: "rules_index \<Rightarrow> index_entry set" where
  "index_entries index =
     set (idx_base index)
   \<union> (\<Union>g \<in> set (idx_languages index). set (snd g))
   \<union> (\<Union>g \<in> set (idx_frameworks index). set (snd g))
   \<union> (\<Union>g \<in> set (idx_cloud index). set (snd g))"

text \<open>An entry with neither a \<open>path\<close> nor a \<open>file\<close> key.\<close>

definition lacks_path_keys :: "index_entry \<Rightarrow> bool" where
  "lacks_path_keys rule = (entry_path rule = None \<and> entry_file rule = None)"

text \<open>The records of all four buckets (\<open>all_rules.values()\<close>).\<close>

definition all_rule_records :: "parsed_rules \<Rightarrow> RuleMetadata list" where
  "all_rule_records rules = pr_base rules @ pr_language rules @ pr_framework rules @ pr_cloud rules"

text \<open>An index whose only entry is \<open>{"name": "Orphan"}\<close>, under \<open>base\<close>.\<close>

definition nameless_path_repo :: repo where
  "nameless_path_repo =
     \<lparr> root = ''/repo'', present = {},
       index_json = Some (Inr \<lparr> idx_base = [\<lparr> entry_name = Some ''Orphan'', entry_path = None,
                                              entry_file = None, entry_estimatedTokens = None \<rparr>],
                               idx_languages = [], idx_frameworks = [], idx_cloud = [] \<rparr>),
       agents_md = None, base_dir = None, languages_dir = None, frameworks_dir = None,
       cloud_dir = None, archive_dir = None \<rparr>"

text \<open>
  The number that \<open>selection_efficiency\<close> prints as a percentage:
  selected / available, and 0 for an empty catalog.
\<close>

definition selection_ratio :: "SelectionReport \<Rightarrow> rat" where
  "selection_ratio rep =
     (if total_rules_available rep > 0
      then of_nat (total_rules_selected rep) / of_nat (total_rules_available rep)
      else 0)"

text \<open>
  An index with one critical base rule, one Python rule and one FastAPI rule.
\<close>

definition sample_repo :: repo where
  "sample_repo =
     \<lparr> root = ''/repo'', present = {},
       index_json = Some (Inr
         \<lparr> idx_base = [\<lparr> entry_name = Some ''Code Quality'', entry_path = None,
                          entry_file = Some ''base/code-quality.md'', entry_estimatedTokens = None \<rparr>],
           idx_languages = [(''python'',
                        [\<lparr> entry_name = Some ''Python Testing'',
                            entry_path = Some ''languages/python/testing.md'',
                            entry_file = None, entry_estimatedTokens = None \<rparr>])],
           idx_frameworks = [(''fastapi'',
                        [\<lparr> entry_name = Some ''FastAPI'', entry_path = None,
                            entry_file = Some ''frameworks/fastapi/routing.md'',
                            entry_estimatedTokens = Some 1500 \<rparr>])],
           idx_cloud = [] \<rparr>),
       agents_md = None, base_dir = None, languages_dir = None, frameworks_dir = None,
       cloud_dir = None, archive_dir = None \<rparr>"

text \<open>What the selector reports for it when the context has the language Python.\<close>

definition sample_report :: SelectionReport where
  "sample_report =
     \<lparr> total_rules_available = 3, total_rules_selected = 2, total_estimated_tokens = 1800,
       selection_efficiency = ''66.7%'',
       selected_rules =
         [\<lparr> rule_name = ''Code Quality'', rule_path = ''base/code-quality.md'',
             rule_category = ''base'', rule_language = None, rule_framework = None,
             rule_cloud_provider = None, rule_topics = [''quality''],
             rule_maturity = [''mvp'', ''pre-production'', ''production''],
             estimated_tokens = 800 \<rparr>,
          \<lparr> rule_name = ''Python Testing'', rule_path = ''languages/python/testing.md'',
             rule_category = ''language'', rule_language = Some ''python'', rule_framework = None,
             rule_cloud_provider = None, rule_topics = [''testing''],
             rule_maturity = [''mvp'', ''pre-production'', ''production''],
             estimated_tokens = 1000 \<rparr>],
       selection_reasoning =
         [\<lparr> reasoning_rule = ''Code Quality'', reason = ''Critical base rule'', score = 100 \<rparr>,
          \<lparr> reasoning_rule = ''Python Testing'', reason = ''Matches project language: python'',
             score = 90 \<rparr>],
       breakdown = \<lparr> breakdown_base = 1, breakdown_language = 1, breakdown_framework = 0,
                     breakdown_cloud = 0 \<rparr>,
       project_context = \<lparr> languages = [''python''], frameworks = [], cloud_providers = [],
                           maturity = ''mvp'' \<rparr> \<rparr>"

text \<open>\<open>AuditConfig(depth=d)\<close>, with the defaults of the dataclass.\<close>

definition audit_config :: "string \<Rightarrow> AuditConfig" where
  "audit_config d =
     \<lparr> depth = d, enable_citations = True, enable_beads_generation = False,
       enable_pr_suggestions = True, max_tasks_per_finding = 3 \<rparr>"

text \<open>
  Two base documents that share the headings Overview, Usage and Examples and
  contain none of the keywords, as \<open>_analyze_file\<close> profiles them.
\<close>

definition plain_doc_a :: ContentAnalysis where
  "plain_doc_a =
     \<lparr> file_path = ''base/a.md'', category = ''base'',
       topics = {''a'', ''overview'', ''usage'', ''examples''}, keyword_tags = {},
       headings = [''Overview'', ''Usage'', ''Examples''], code_blocks = [], word_count = 6 \<rparr>"

definition plain_doc_b :: ContentAnalysis where
  "plain_doc_b =
     \<lparr> file_path = ''base/b.md'', category = ''base'',
       topics = {''b'', ''overview'', ''usage'', ''examples''}, keyword_tags = {},
       headings = [''Overview'', ''Usage'', ''Examples''], code_blocks = [], word_count = 6 \<rparr>"

text \<open>
  The same two documents with keywords, and the report of their overlap: the
  keyword ratio is 4/5, the topic ratio 3/4, and the score the float 0.78.
\<close>

definition tagged_doc_a :: ContentAnalysis where
  "tagged_doc_a = plain_doc_a \<lparr> keyword_tags := {''api'', ''test'', ''sql'', ''ci''} \<rparr>"

definition tagged_doc_b :: ContentAnalysis where
  "tagged_doc_b = plain_doc_b \<lparr> keyword_tags := {''api'', ''test'', ''sql'', ''ci'', ''cd''} \<rparr>"

definition tagged_overlap :: OverlapReport where
  "tagged_overlap =
     \<lparr> file1 = ''base/a.md'', file2 = ''base/b.md'', overlap_score = to_double (78 / 100),
       common_keywords = [''api'', ''ci'', ''sql'', ''test''],
       common_topics = [''examples'', ''overview'', ''usage''] \<rparr>"

text \<open>
  The documents that \<open>_analyze_all_files\<close> opens, in the order in which it
  opens them, and the exception of the first of them that cannot be read.
\<close>

definition folder_files :: "sub_folder list option \<Rightarrow> md_file list" where
  "folder_files d =
     (case d of None \<Rightarrow> [] | Some folders \<Rightarrow> concat (map md_files (filter is_dir folders)))"

definition corpus_files :: "repo \<Rightarrow> md_file list" where
  "corpus_files r =
     (case base_dir r of None \<Rightarrow> [] | Some mds \<Rightarrow> mds)
   @ folder_files (languages_dir r) @ folder_files (frameworks_dir r) @ folder_files (cloud_dir r)"

fun first_unreadable :: "md_file list \<Rightarrow> py_error option" where
  "first_unreadable [] = None"
| "first_unreadable (f # fs) =
     (case md_data f of Inl e \<Rightarrow> Some e | Inr content \<Rightarrow> first_unreadable fs)"

text \<open>The exception of a computation, if it raised one.\<close>

definition error_of :: "py_error + 'a \<Rightarrow> py_error option" where
  "error_of res = (case res of Inl e \<Rightarrow> Some e | Inr v \<Rightarrow> None)"

text \<open>
  A base directory with an empty, readable document and a document whose bytes
  are not UTF-8.
\<close>

definition unreadable_repo :: repo where
  "unreadable_repo =
     \<lparr> root = ''/repo'', present = {}, index_json = None, agents_md = None,
       base_dir = Some [\<lparr> md_name = ''good.md'', md_data = Inr [] \<rparr>,
                        \<lparr> md_name = ''bad.md'', md_data = Inl (UnicodeDecodeError ''base/bad.md'') \<rparr>],
       languages_dir = None, frameworks_dir = None, cloud_dir = None, archive_dir = None \<rparr>"

text \<open>The gap reported for a missing base topic.\<close>

definition base_gap :: "string \<Rightarrow> GapReport" where
  "base_gap expected =
     \<lparr> gap_category = ''base'', missing_topics = [expected],
       recommendation = ''Create base/'' @ expected @ ''.md to cover ''
          @ py_replace (CHR ''-'') (CHR '' '') expected @ '' best practices'' \<rparr>"

text \<open>A repository whose corpus directories exist and hold no document.\<close>

definition empty_corpus_repo :: repo where
  "empty_corpus_repo =
     \<lparr> root = ''/repo'', present = {}, index_json = None, agents_md = None,
       base_dir = Some [],
       languages_dir = Some [\<lparr> folder_name = ''python'', is_dir = True, md_files = [] \<rparr>],
       frameworks_dir = None, cloud_dir = None, archive_dir = None \<rparr>"

section \<open>Loops that stop at the first exception\<close>

lemma collect_Inr_iff:
  "collect f xs = Inr ys \<longleftrightarrow> list_all2 (\<lambda>x y. f x = Inr y) xs ys"
proof (induction xs arbitrary: ys)
  case Nil
  show ?case by auto
next
  case (Cons x xs)
  show ?case
  proof (cases "f x")
    case (Inl e)
    then show ?thesis by (auto simp: list_all2_Cons1)
  next
    case (Inr y)
    then show ?thesis
      using Cons.IH by (cases "collect f xs") (auto simp: list_all2_Cons1)
  qed
qed

lemma collect_total:
  assumes "\<And>x. x \<in> set xs \<Longrightarrow> \<exists>y. f x = Inr y"
  shows "\<exists>ys. collect f xs = Inr ys"
  using assms
proof (induction xs)
  case Nil
  show ?case by simp
next
  case (Cons x xs)
  then obtain y where y: "f x = Inr y" by auto
  from Cons obtain ys where "collect f xs = Inr ys" by auto
  with y show ?case by simp
qed

lemma collect_member:
  assumes "collect f xs = Inr ys" and "x \<in> set xs"
  shows "\<exists>y \<in> set ys. f x = Inr y"
  using assms unfolding collect_Inr_iff
  by (auto simp: list_all2_conv_all_nth in_set_conv_nth)

lemma collect_member_rev:
  assumes "collect f xs = Inr ys" and "y \<in> set ys"
  shows "\<exists>x \<in> set xs. f x = Inr y"
  using assms unfolding collect_Inr_iff
  by (fastforce simp: list_all2_conv_all_nth in_set_conv_nth)

lemma collect_length:
  "collect f xs = Inr ys \<Longrightarrow> length ys = length xs"
  unfolding collect_Inr_iff by (auto dest: list_all2_lengthD)

lemma collect_groups_member:
  assumes "collect_groups f groups = Inr rs" and "(key, rules) \<in> set groups" and "rule \<in> set rules"
  shows "\<exists>y \<in> set rs. f key rule = Inr y"
proof -
  from assms(1) obtain rss where rss: "collect (\<lambda>(key, rules). collect (f key) rules) groups = Inr rss"
    and rs: "rs = concat rss"
    by (auto simp: collect_groups_def split: sum.splits)
  from collect_member[OF rss assms(2)] obtain ys where ys: "ys \<in> set rss" "collect (f key) rules = Inr ys"
    by auto
  from collect_member[OF ys(2) assms(3)] obtain y where "y \<in> set ys" "f key rule = Inr y" by auto
  with ys(1) rs show ?thesis by auto
qed

lemma collect_groups_member_rev:
  assumes "collect_groups f groups = Inr rs" and "y \<in> set rs"
  shows "\<exists>key rules rule. (key, rules) \<in> set groups \<and> rule \<in> set rules \<and> f key rule = Inr y"
proof -
  from assms(1) obtain rss where rss: "collect (\<lambda>(key, rules). collect (f key) rules) groups = Inr rss"
    and rs: "rs = concat rss"
    by (auto simp: collect_groups_def split: sum.splits)
  from assms(2) rs obtain ys where ys: "ys \<in> set rss" "y \<in> set ys" by auto
  from collect_member_rev[OF rss ys(1)] obtain key rules where
    g: "(key, rules) \<in> set groups" "collect (f key) rules = Inr ys" by auto
  from collect_member_rev[OF g(2) ys(2)] g(1) show ?thesis by blast
qed

lemma collect_groups_total:
  assumes "\<And>key rules rule. (key, rules) \<in> set groups \<Longrightarrow> rule \<in> set rules \<Longrightarrow> \<exists>y. f key rule = Inr y"
  shows "\<exists>rs. collect_groups f groups = Inr rs"
proof -
  have "\<exists>rss. collect (\<lambda>(key, rules). collect (f key) rules) groups = Inr rss"
  proof (rule collect_total)
    fix g assume mem: "g \<in> set groups"
    obtain key rules where g1: "g = (key, rules)" by (cases g) auto
    with mem have g: "g = (key, rules)" "(key, rules) \<in> set groups" by auto
    have "\<exists>ys. collect (f key) rules = Inr ys"
      by (rule collect_total) (use assms g(2) in blast)
    with g(1) show "\<exists>y. (case g of (key, rules) \<Rightarrow> collect (f key) rules) = Inr y" by simp
  qed
  then show ?thesis by (auto simp: collect_groups_def)
qed

lemma collect_groups_length:
  "collect_groups f groups = Inr rs \<Longrightarrow> length rs = sum_list (map (length \<circ> snd) groups)"
proof -
  assume a: "collect_groups f groups = Inr rs"
  then obtain rss where rss: "collect (\<lambda>(key, rules). collect (f key) rules) groups = Inr rss"
    and rs: "rs = concat rss"
    by (auto simp: collect_groups_def split: sum.splits)
  from rss have "map length rss = map (length \<circ> snd) groups"
    unfolding collect_Inr_iff
    by (induction groups rss rule: list_all2_induct) (auto dest: collect_length)
  with rs show ?thesis by (simp add: length_concat)
qed

section \<open>Context detection\<close>

text \<open>
  C3 (as stated): a root with only \<open>requirements.txt\<close> gives languages
  \<open>{python}\<close> and maturity \<open>prototype\<close>. The code names the lowest tier
  \<open>mvp\<close>, so the maturity part fails at the very root the claim describes.
\<close>

theorem detect_context_requirements_only_not_prototype:
  "\<not> (set (languages (detect_context \<lparr> root = ''/repo'', present = {''requirements.txt''} \<rparr>))
        = {''python''}
      \<and> maturity (detect_context \<lparr> root = ''/repo'', present = {''requirements.txt''} \<rparr>)
        = ''prototype'')"
  by (simp add: detect_context_def detect_maturity_def exists_in_def)

text \<open>
  C3 (amended): for a root in which \<open>requirements.txt\<close> is the only language
  marker present, with no CI workflow directory, the detected languages are
  exactly \<open>[python]\<close> and the maturity is \<open>mvp\<close>, the code's name for its
  lowest tier.
\<close>

theorem detect_context_requirements_only:
  assumes "exists_in r ''requirements.txt''"
    and "\<not> exists_in r ''package.json''"
    and "\<not> exists_in r ''go.mod''"
    and "\<not> exists_in r ''pom.xml''"
    and "\<not> exists_in r ''build.gradle''"
    and "\<not> exists_in r ''Cargo.toml''"
    and "\<not> exists_in r ''.github/workflows''"
  shows "languages (detect_context r) = [''python'']
       \<and> maturity (detect_context r) = ''mvp''"
  using assms by (simp add: detect_context_def detect_languages_def detect_maturity_def)

theorem detect_context_requirements_only_witness:
  "languages (detect_context \<lparr> root = ''/repo'', present = {''requirements.txt''} \<rparr>) = [''python'']
   \<and> maturity (detect_context \<lparr> root = ''/repo'', present = {''requirements.txt''} \<rparr>) = ''mvp''"
  using detect_context_requirements_only
          [of "\<lparr> root = ''/repo'', present = {''requirements.txt''} \<rparr>"]
  by (simp add: exists_in_def)

section \<open>Rule catalog loader\<close>

lemma extract_topics_from_empty_path: "extract_topics_from_path [] = []"
  by (simp add: extract_topics_from_path_def path_stem_def path_name_def name_stem_def
      py_lower_def topic_keywords_def startswith_def)

lemma entry_rule_path_lacking: "lacks_path_keys rule \<Longrightarrow> entry_rule_path rule = []"
  by (simp add: lacks_path_keys_def entry_rule_path_def)

lemma parse_base_rule_named:
  "entry_name rule = Some n \<Longrightarrow>
   \<exists>m. parse_base_rule rule = Inr m \<and> rule_name m = n \<and> rule_path m = entry_rule_path rule
      \<and> rule_topics m = extract_topics_from_path (entry_rule_path rule) \<and> rule_category m = ''base''"
  by (simp add: parse_base_rule_def entry_name_or_raise_def Let_def)

lemma parse_language_rule_named:
  "entry_name rule = Some n \<Longrightarrow>
   \<exists>m. parse_language_rule k rule = Inr m \<and> rule_name m = n \<and> rule_path m = entry_rule_path rule
      \<and> rule_topics m = extract_topics_from_path (entry_rule_path rule) \<and> rule_category m = ''language''"
  by (simp add: parse_language_rule_def entry_name_or_raise_def Let_def)

lemma parse_framework_rule_named:
  "entry_name rule = Some n \<Longrightarrow>
   \<exists>m. parse_framework_rule k rule = Inr m \<and> rule_name m = n \<and> rule_path m = entry_rule_path rule
      \<and> rule_topics m = extract_topics_from_path (entry_rule_path rule) \<and> rule_category m = ''framework''"
  by (simp add: parse_framework_rule_def entry_name_or_raise_def Let_def)

lemma parse_cloud_rule_named:
  "entry_name rule = Some n \<Longrightarrow>
   \<exists>m. parse_cloud_rule k rule = Inr m \<and> rule_name m = n \<and> rule_path m = entry_rule_path rule
      \<and> rule_topics m = extract_topics_from_path (entry_rule_path rule) \<and> rule_category m = ''cloud''"
  by (simp add: parse_cloud_rule_def entry_name_or_raise_def Let_def)

lemma parse_index_Inr:
  assumes "index_json r = Some (Inr index)"
  shows "parse_index r = Inr rules \<longleftrightarrow>
           collect parse_base_rule (idx_base index) = Inr (pr_base rules)
         \<and> collect_groups parse_language_rule (idx_languages index) = Inr (pr_language rules)
         \<and> collect_groups parse_framework_rule (idx_frameworks index) = Inr (pr_framework rules)
         \<and> collect_groups parse_cloud_rule (idx_cloud index) = Inr (pr_cloud rules)"
  using assms by (cases rules) (auto simp: parse_index_def split: sum.splits)

lemma parse_index_total:
  assumes idx: "index_json r = Some (Inr index)"
    and names: "\<And>rule. rule \<in> index_entries index \<Longrightarrow> entry_name rule \<noteq> None"
  shows "\<exists>rules. parse_index r = Inr rules"
proof -
  have "\<exists>bs. collect parse_base_rule (idx_base index) = Inr bs"
  proof (rule collect_total)
    fix rule assume "rule \<in> set (idx_base index)"
    then have "rule \<in> index_entries index" by (simp add: index_entries_def)
    from names[OF this] obtain n where "entry_name rule = Some n" by auto
    from parse_base_rule_named[OF this] show "\<exists>m. parse_base_rule rule = Inr m" by blast
  qed
  then obtain bs where bs: "collect parse_base_rule (idx_base index) = Inr bs" ..
  have "\<exists>ls. collect_groups parse_language_rule (idx_languages index) = Inr ls"
  proof (rule collect_groups_total)
    fix key rules rule assume "(key, rules) \<in> set (idx_languages index)" "rule \<in> set rules"
    then have "rule \<in> index_entries index" by (force simp: index_entries_def)
    from names[OF this] obtain n where "entry_name rule = Some n" by auto
    from parse_language_rule_named[OF this] show "\<exists>m. parse_language_rule key rule = Inr m" by blast
  qed
  then obtain ls where ls: "collect_groups parse_language_rule (idx_languages index) = Inr ls" ..
  have "\<exists>fs. collect_groups parse_framework_rule (idx_frameworks index) = Inr fs"
  proof (rule collect_groups_total)
    fix key rules rule assume "(key, rules) \<in> set (idx_frameworks index)" "rule \<in> set rules"
    then have "rule \<in> index_entries index" by (force simp: index_entries_def)
    from names[OF this] obtain n where "entry_name rule = Some n" by auto
    from parse_framework_rule_named[OF this] show "\<exists>m. parse_framework_rule key rule = Inr m" by blast
  qed
  then obtain fs where fs: "collect_groups parse_framework_rule (idx_frameworks index) = Inr fs" ..
  have "\<exists>cs. collect_groups parse_cloud_rule (idx_cloud index) = Inr cs"
  proof (rule collect_groups_total)
    fix key rules rule assume "(key, rules) \<in> set (idx_cloud index)" "rule \<in> set rules"
    then have "rule \<in> index_entries index" by (force simp: index_entries_def)
    from names[OF this] obtain n where "entry_name rule = Some n" by auto
    from parse_cloud_rule_named[OF this] show "\<exists>m. parse_cloud_rule key rule = Inr m" by blast
  qed
  then obtain cs where cs: "collect_groups parse_cloud_rule (idx_cloud index) = Inr cs" ..
  from idx bs ls fs cs show ?thesis by (simp add: parse_index_def)
qed

lemma parse_index_record_of_entry:
  assumes idx: "index_json r = Some (Inr index)"
    and res: "parse_index r = Inr rules"
    and mem: "rule \<in> index_entries index"
    and name: "entry_name rule = Some n"
  shows "\<exists>m \<in> set (all_rule_records rules). rule_name m = n \<and> rule_path m = entry_rule_path rule
           \<and> rule_topics m = extract_topics_from_path (entry_rule_path rule)"
proof -
  note P = parse_index_Inr[OF idx, THEN iffD1, OF res]
  from mem consider
      (b) "rule \<in> set (idx_base index)"
    | (l) key es where "(key, es) \<in> set (idx_languages index)" "rule \<in> set es"
    | (f) key es where "(key, es) \<in> set (idx_frameworks index)" "rule \<in> set es"
    | (c) key es where "(key, es) \<in> set (idx_cloud index)" "rule \<in> set es"
    by (auto simp: index_entries_def)
  then show ?thesis
  proof cases
    case b
    from collect_member[OF _ b] P obtain m where "m \<in> set (pr_base rules)" "parse_base_rule rule = Inr m"
      by blast
    with parse_base_rule_named[OF name] show ?thesis by (auto simp: all_rule_records_def)
  next
    case l
    from collect_groups_member[OF _ l] P obtain m where
      "m \<in> set (pr_language rules)" "parse_language_rule key rule = Inr m" by blast
    with parse_language_rule_named[OF name, of key] show ?thesis by (auto simp: all_rule_records_def)
  next
    case f
    from collect_groups_member[OF _ f] P obtain m where
      "m \<in> set (pr_framework rules)" "parse_framework_rule key rule = Inr m" by blast
    with parse_framework_rule_named[OF name, of key] show ?thesis by (auto simp: all_rule_records_def)
  next
    case c
    from collect_groups_member[OF _ c] P obtain m where
      "m \<in> set (pr_cloud rules)" "parse_cloud_rule key rule = Inr m" by blast
    with parse_cloud_rule_named[OF name, of key] show ?thesis by (auto simp: all_rule_records_def)
  qed
qed

text \<open>
  C1 (as stated): an entry with neither \<open>path\<close> nor \<open>file\<close> makes the loader
  raise a schema-validation failure. The code has no such check: for the index
  whose only entry is \<open>{"name": "Orphan"}\<close> the loader returns normally, with a
  record whose path is empty.
\<close>

theorem parse_index_empty_path_record:
  "parse_index nameless_path_repo =
     Inr \<lparr> pr_base = [\<lparr> rule_name = ''Orphan'', rule_path = [], rule_category = ''base'',
                        rule_language = None, rule_framework = None, rule_cloud_provider = None,
                        rule_topics = [], rule_maturity = [''mvp'', ''pre-production'', ''production''],
                        estimated_tokens = 800 \<rparr>],
           pr_language = [], pr_framework = [], pr_cloud = [] \<rparr>"
  by (simp add: nameless_path_repo_def parse_index_def parse_base_rule_def entry_rule_path_def
      entry_name_or_raise_def extract_topics_from_empty_path default_maturity_def collect_groups_def)

text \<open>
  C1 (amended): when every entry of the index has a name, \<open>parse_index\<close> does
  not raise, and for every entry that has a name but neither a \<open>path\<close> nor a
  \<open>file\<close> key the catalog holds a record with that name, the empty path and no
  topics.
\<close>

theorem parse_index_missing_path_keys:
  assumes "index_json r = Some (Inr index)"
    and "\<forall>rule \<in> index_entries index. entry_name rule \<noteq> None"
  shows "\<exists>rules. parse_index r = Inr rules \<and>
           (\<forall>rule n. rule \<in> index_entries index \<and> lacks_path_keys rule \<and> entry_name rule = Some n \<longrightarrow>
              (\<exists>m \<in> set (all_rule_records rules). rule_name m = n \<and> rule_path m = [] \<and> rule_topics m = []))"
proof -
  from parse_index_total[OF assms(1)] assms(2) obtain rules where res: "parse_index r = Inr rules"
    by blast
  have "\<exists>m \<in> set (all_rule_records rules). rule_name m = n \<and> rule_path m = [] \<and> rule_topics m = []"
    if "rule \<in> index_entries index" "lacks_path_keys rule" "entry_name rule = Some n" for rule n
    using parse_index_record_of_entry[OF assms(1) res that(1) that(3)]
    by (simp add: entry_rule_path_lacking[OF that(2)] extract_topics_from_empty_path)
  with res show ?thesis by blast
qed

theorem parse_index_missing_path_keys_witness:
  "\<exists>rules. parse_index nameless_path_repo = Inr rules \<and>
     (\<exists>m \<in> set (all_rule_records rules). rule_name m = ''Orphan'' \<and> rule_path m = [] \<and> rule_topics m = [])"
proof -
  let ?e = "\<lparr> entry_name = Some ''Orphan'', entry_path = None, entry_file = None,
              entry_estimatedTokens = None \<rparr>"
  let ?index = "\<lparr> idx_base = [?e], idx_languages = [], idx_frameworks = [], idx_cloud = [] \<rparr>"
  have idx: "index_json nameless_path_repo = Some (Inr ?index)"
    by (simp add: nameless_path_repo_def)
  have names: "\<forall>rule \<in> index_entries ?index. entry_name rule \<noteq> None"
    by (simp add: index_entries_def)
  have e: "?e \<in> index_entries ?index \<and> lacks_path_keys ?e \<and> entry_name ?e = Some ''Orphan''"
    by (simp add: index_entries_def lacks_path_keys_def)
  from parse_index_missing_path_keys[OF idx names] e show ?thesis by blast
qed

section \<open>Rule selector\<close>

lemma parse_index_categories:
  assumes "parse_index r = Inr rules"
  shows "(\<forall>m \<in> set (pr_base rules). rule_category m = ''base'')
       \<and> (\<forall>m \<in> set (pr_language rules). rule_category m = ''language'')
       \<and> (\<forall>m \<in> set (pr_framework rules). rule_category m = ''framework'')
       \<and> (\<forall>m \<in> set (pr_cloud rules). rule_category m = ''cloud'')"
proof (cases "index_json r")
  case None
  with assms show ?thesis by (auto simp: parse_index_def)
next
  case (Some res)
  show ?thesis
  proof (cases res)
    case (Inl e)
    with Some assms show ?thesis by (simp add: parse_index_def)
  next
    case (Inr index)
    with Some have idx: "index_json r = Some (Inr index)" by simp
    note P = parse_index_Inr[OF idx, THEN iffD1, OF assms]
    have b: "rule_category m = ''base''" if "m \<in> set (pr_base rules)" for m
    proof -
      from collect_member_rev[OF _ that] P obtain rule where "parse_base_rule rule = Inr m" by blast
      then show ?thesis
        by (auto simp: parse_base_rule_def Let_def split: sum.splits)
    qed
    have l: "rule_category m = ''language''" if "m \<in> set (pr_language rules)" for m
    proof -
      from collect_groups_member_rev[OF _ that] P obtain k rule where
        "parse_language_rule k rule = Inr m" by blast
      then show ?thesis
        by (auto simp: parse_language_rule_def Let_def split: sum.splits)
    qed
    have f: "rule_category m = ''framework''" if "m \<in> set (pr_framework rules)" for m
    proof -
      from collect_groups_member_rev[OF _ that] P obtain k rule where
        "parse_framework_rule k rule = Inr m" by blast
      then show ?thesis
        by (auto simp: parse_framework_rule_def Let_def split: sum.splits)
    qed
    have c: "rule_category m = ''cloud''" if "m \<in> set (pr_cloud rules)" for m
    proof -
      from collect_groups_member_rev[OF _ that] P obtain k rule where
        "parse_cloud_rule k rule = Inr m" by blast
      then show ?thesis
        by (auto simp: parse_cloud_rule_def Let_def split: sum.splits)
    qed
    from b l f c show ?thesis by blast
  qed
qed

lemma count_category_append:
  "count_category c (xs @ ys) = count_category c xs + count_category c ys"
  by (simp add: count_category_def)

lemma count_category_same:
  "(\<forall>m \<in> set xs. rule_category m = c) \<Longrightarrow> count_category c (filter P xs) = length (filter P xs)"
  by (induction xs) (auto simp: count_category_def)

lemma count_category_other:
  "(\<forall>m \<in> set xs. rule_category m = c') \<Longrightarrow> c' \<noteq> c \<Longrightarrow> count_category c (filter P xs) = 0"
  by (induction xs) (auto simp: count_category_def)

lemma length_filter_mono:
  "(\<And>x. x \<in> set xs \<Longrightarrow> P x \<Longrightarrow> Q x) \<Longrightarrow> length (filter P xs) \<le> length (filter Q xs)"
  by (induction xs) auto

lemma opt_in_mono: "set xs \<subseteq> set ys \<Longrightarrow> opt_in x xs \<Longrightarrow> opt_in x ys"
  by (auto simp: opt_in_def split: option.splits)

lemma select_rules_mono:
  assumes "set ls \<subseteq> set ls'" and "set fs \<subseteq> set fs'" and "set cs \<subseteq> set cs'"
  shows "length (select_rules rules ls fs cs) \<le> length (select_rules rules ls' fs' cs')"
proof -
  have "length (filter (\<lambda>rule. opt_in (rule_language rule) ls) (pr_language rules))
      \<le> length (filter (\<lambda>rule. opt_in (rule_language rule) ls') (pr_language rules))"
    by (rule length_filter_mono) (rule opt_in_mono[OF assms(1)])
  moreover have "length (filter (\<lambda>rule. opt_in (rule_framework rule) fs) (pr_framework rules))
      \<le> length (filter (\<lambda>rule. opt_in (rule_framework rule) fs') (pr_framework rules))"
    by (rule length_filter_mono) (rule opt_in_mono[OF assms(2)])
  moreover have "length (filter (\<lambda>rule. opt_in (rule_cloud_provider rule) cs) (pr_cloud rules))
      \<le> length (filter (\<lambda>rule. opt_in (rule_cloud_provider rule) cs') (pr_cloud rules))"
    by (rule length_filter_mono) (rule opt_in_mono[OF assms(3)])
  ultimately show ?thesis by (simp add: select_rules_def)
qed

lemma select_rules_le_available:
  "length (select_rules rules ls fs cs)
     \<le> length (pr_base rules) + length (pr_language rules)
       + length (pr_framework rules) + length (pr_cloud rules)"
proof -
  have "length (filter is_critical (pr_base rules)) \<le> length (pr_base rules)"
    by (rule length_filter_le)
  moreover have "length (filter (\<lambda>rule. opt_in (rule_language rule) ls) (pr_language rules))
      \<le> length (pr_language rules)"
    by (rule length_filter_le)
  moreover have "length (filter (\<lambda>rule. opt_in (rule_framework rule) fs) (pr_framework rules))
      \<le> length (pr_framework rules)"
    by (rule length_filter_le)
  moreover have "length (filter (\<lambda>rule. opt_in (rule_cloud_provider rule) cs) (pr_cloud rules))
      \<le> length (pr_cloud rules)"
    by (rule length_filter_le)
  ultimately show ?thesis unfolding select_rules_def length_append by linarith
qed

lemma generate_selection_report_Inr:
  "generate_selection_report r ls fs cs m = Inr rep \<Longrightarrow>
   \<exists>rules. parse_index r = Inr rules
     \<and> selected_rules rep = select_rules rules ls fs cs
     \<and> total_rules_selected rep = length (select_rules rules ls fs cs)
     \<and> total_rules_available rep = length (pr_base rules) + length (pr_language rules)
                                   + length (pr_framework rules) + length (pr_cloud rules)
     \<and> breakdown_base (breakdown rep) = count_category ''base'' (select_rules rules ls fs cs)
     \<and> breakdown_language (breakdown rep) = count_category ''language'' (select_rules rules ls fs cs)
     \<and> breakdown_framework (breakdown rep) = count_category ''framework'' (select_rules rules ls fs cs)
     \<and> breakdown_cloud (breakdown rep) = count_category ''cloud'' (select_rules rules ls fs cs)"
  by (auto simp: generate_selection_report_def Let_def split: sum.splits)

lemma generate_selection_report_total:
  "parse_index r = Inr rules \<Longrightarrow> \<exists>rep. generate_selection_report r ls fs cs m = Inr rep"
  by (simp add: generate_selection_report_def Let_def)

text \<open>
  C10: in every report that \<open>generate_selection_report\<close> returns, the four
  breakdown counts add up to \<open>total_rules_selected\<close>, which is at most
  \<open>total_rules_available\<close>.
\<close>

theorem selection_report_breakdown_sum:
  assumes "generate_selection_report r ls fs cs m = Inr rep"
  shows "breakdown_base (breakdown rep) + breakdown_language (breakdown rep)
           + breakdown_framework (breakdown rep) + breakdown_cloud (breakdown rep)
         = total_rules_selected rep
       \<and> total_rules_selected rep \<le> total_rules_available rep"
proof -
  from generate_selection_report_Inr[OF assms] obtain rules where
    pi: "parse_index r = Inr rules"
    and sel: "total_rules_selected rep = length (select_rules rules ls fs cs)"
    and av: "total_rules_available rep = length (pr_base rules) + length (pr_language rules)
                                   + length (pr_framework rules) + length (pr_cloud rules)"
    and bb: "breakdown_base (breakdown rep) = count_category ''base'' (select_rules rules ls fs cs)"
    and bl: "breakdown_language (breakdown rep) = count_category ''language'' (select_rules rules ls fs cs)"
    and bf: "breakdown_framework (breakdown rep) = count_category ''framework'' (select_rules rules ls fs cs)"
    and bc: "breakdown_cloud (breakdown rep) = count_category ''cloud'' (select_rules rules ls fs cs)"
    by blast
  note cat = parse_index_categories[OF pi]
  from cat have B: "\<forall>m \<in> set (pr_base rules). rule_category m = ''base''" by blast
  from cat have L: "\<forall>m \<in> set (pr_language rules). rule_category m = ''language''" by blast
  from cat have F: "\<forall>m \<in> set (pr_framework rules). rule_category m = ''framework''" by blast
  from cat have C: "\<forall>m \<in> set (pr_cloud rules). rule_category m = ''cloud''" by blast
  have 1: "count_category ''base'' (select_rules rules ls fs cs)
             = length (filter is_critical (pr_base rules))"
    unfolding select_rules_def count_category_append
    by (simp add: count_category_same[OF B] count_category_other[OF L]
        count_category_other[OF F] count_category_other[OF C])
  have 2: "count_category ''language'' (select_rules rules ls fs cs)
             = length (filter (\<lambda>rule. opt_in (rule_language rule) ls) (pr_language rules))"
    unfolding select_rules_def count_category_append
    by (simp add: count_category_same[OF L] count_category_other[OF B]
        count_category_other[OF F] count_category_other[OF C])
  have 3: "count_category ''framework'' (select_rules rules ls fs cs)
             = length (filter (\<lambda>rule. opt_in (rule_framework rule) fs) (pr_framework rules))"
    unfolding select_rules_def count_category_append
    by (simp add: count_category_same[OF F] count_category_other[OF B]
        count_category_other[OF L] count_category_other[OF C])
  have 4: "count_category ''cloud'' (select_rules rules ls fs cs)
             = length (filter (\<lambda>rule. opt_in (rule_cloud_provider rule) cs) (pr_cloud rules))"
    unfolding select_rules_def count_category_append
    by (simp add: count_category_same[OF C] count_category_other[OF B]
        count_category_other[OF L] count_category_other[OF F])
  have sum: "breakdown_base (breakdown rep) + breakdown_language (breakdown rep)
           + breakdown_framework (breakdown rep) + breakdown_cloud (breakdown rep)
         = total_rules_selected rep"
    unfolding bb bl bf bc sel 1 2 3 4 by (simp add: select_rules_def)
  have "total_rules_selected rep \<le> total_rules_available rep"
    unfolding sel av by (rule select_rules_le_available)
  with sum show ?thesis by simp
qed

lemma sample_repo_report:
  "generate_selection_report sample_repo [''python''] [] [] ''mvp'' = Inr sample_report"
  by code_simp

theorem selection_report_breakdown_sum_witness:
  "generate_selection_report sample_repo [''python''] [] [] ''mvp'' = Inr sample_report
   \<and> breakdown_base (breakdown sample_report) + breakdown_language (breakdown sample_report)
       + breakdown_framework (breakdown sample_report) + breakdown_cloud (breakdown sample_report)
     = total_rules_selected sample_report
   \<and> total_rules_selected sample_report \<le> total_rules_available sample_report"
  using selection_report_breakdown_sum[OF sample_repo_report] sample_repo_report by simp

lemma selection_efficiency_prints_ratio:
  assumes "generate_selection_report r ls fs cs m = Inr rep"
  shows "selection_efficiency rep =
           (if total_rules_available rep > 0
            then format_1f (float_mul (to_double (selection_ratio rep)) 100) @ ''%'' else ''0%'')"
  using assms
  by (auto simp: generate_selection_report_def Let_def efficiency_string_def selection_ratio_def
      int_truediv_def split: sum.splits)

text \<open>
  C8: over the same catalog, a context with more languages, frameworks or cloud
  providers never selects fewer rules: the report is still produced, the number
  of available rules is unchanged, the number of selected rules does not
  decrease, and neither does the selection efficiency selected / available.
\<close>

theorem selection_monotone_in_context:
  assumes "generate_selection_report r ls fs cs m = Inr rep"
    and "set ls \<subseteq> set ls'" and "set fs \<subseteq> set fs'" and "set cs \<subseteq> set cs'"
  shows "\<exists>rep'. generate_selection_report r ls' fs' cs' m' = Inr rep'
           \<and> total_rules_available rep' = total_rules_available rep
           \<and> total_rules_selected rep \<le> total_rules_selected rep'
           \<and> selection_ratio rep \<le> selection_ratio rep'"
proof -
  from generate_selection_report_Inr[OF assms(1)] obtain rules where
    pi: "parse_index r = Inr rules"
    and sel: "total_rules_selected rep = length (select_rules rules ls fs cs)"
    and av: "total_rules_available rep = length (pr_base rules) + length (pr_language rules)
                                   + length (pr_framework rules) + length (pr_cloud rules)"
    by blast
  from generate_selection_report_total[OF pi] obtain rep' where
    rep': "generate_selection_report r ls' fs' cs' m' = Inr rep'" by blast
  from generate_selection_report_Inr[OF rep'] pi have
    sel': "total_rules_selected rep' = length (select_rules rules ls' fs' cs')"
    and av': "total_rules_available rep' = length (pr_base rules) + length (pr_language rules)
                                   + length (pr_framework rules) + length (pr_cloud rules)"
    by auto
  have le: "total_rules_selected rep \<le> total_rules_selected rep'"
    unfolding sel sel' by (rule select_rules_mono[OF assms(2-4)])
  have eq: "total_rules_available rep' = total_rules_available rep"
    unfolding av av' ..
  have "selection_ratio rep \<le> selection_ratio rep'"
    unfolding selection_ratio_def eq using le
    by (simp add: divide_right_mono)
  with rep' eq le show ?thesis by blast
qed

theorem selection_monotone_in_context_witness:
  "\<exists>rep'. generate_selection_report sample_repo [''python''] [''fastapi''] [] ''mvp'' = Inr rep'
      \<and> total_rules_available rep' = total_rules_available sample_report
      \<and> total_rules_selected sample_report \<le> total_rules_selected rep'
      \<and> selection_ratio sample_report \<le> selection_ratio rep'"
  using selection_monotone_in_context[OF sample_repo_report,
          where ls' = "[''python'']" and fs' = "[''fastapi'']" and cs' = "[]" and m' = "''mvp''"]
  by simp

section \<open>Audit orchestrator\<close>

lemma run_Inr:
  assumes "run lib now config r = Inr res"
  shows "mece_content_map res =
           (if depth config \<in> set [''standard'', ''full'']
            then (case create_mece_map lib r of Inl e \<Rightarrow> None | Inr m \<Rightarrow> Some m) else None)"
    and "(depth config \<in> set [''standard'', ''full'']) \<Longrightarrow> \<exists>m. create_mece_map lib r = Inr m"
    and "accuracy_audit res =
           (if depth config = ''full'' \<and> enable_citations config then Some run_accuracy_audit else None)"
    and "file_disposition res =
           (if depth config \<in> set [''standard'', ''full''] then Some (analyze_disposition r) else None)"
  using assms
  by (auto simp: run_def Let_def split: sum.splits if_splits)

lemma run_returns:
  assumes "generate_rules_report lib r (detect_context r) = Inr rr"
    and "depth config \<in> set [''standard'', ''full''] \<Longrightarrow> \<exists>m. create_mece_map lib r = Inr m"
  shows "\<exists>res. run lib now config r = Inr res"
  using assms by (auto simp: run_def Let_def split: sum.splits)

text \<open>
  C9: in every result that \<open>run\<close> returns, the content-consistency map and the
  file-disposition summary are absent exactly when the depth is neither
  \<open>standard\<close> nor \<open>full\<close>, and the accuracy audit is absent exactly when it
  did not run (it runs at depth \<open>full\<close> with citations enabled). So at
  \<open>quick\<close> all three are absent, at \<open>standard\<close> only the accuracy audit is,
  and the accuracy audit is present only at \<open>full\<close>.
\<close>

theorem run_skipped_stages_absent:
  assumes "run lib now config r = Inr res"
  shows "(mece_content_map res = None \<longleftrightarrow> depth config \<notin> set [''standard'', ''full''])
       \<and> (file_disposition res = None \<longleftrightarrow> depth config \<notin> set [''standard'', ''full''])
       \<and> (accuracy_audit res = None \<longleftrightarrow> \<not> (depth config = ''full'' \<and> enable_citations config))
       \<and> (depth config = ''quick'' \<longrightarrow>
            mece_content_map res = None \<and> accuracy_audit res = None \<and> file_disposition res = None)
       \<and> (depth config = ''standard'' \<longrightarrow>
            mece_content_map res \<noteq> None \<and> file_disposition res \<noteq> None \<and> accuracy_audit res = None)
       \<and> (accuracy_audit res \<noteq> None \<longrightarrow> depth config = ''full'')"
proof -
  note R = run_Inr[OF assms]
  have m: "mece_content_map res = None \<longleftrightarrow> depth config \<notin> set [''standard'', ''full'']"
  proof (cases "depth config \<in> set [''standard'', ''full'']")
    case True
    from R(2)[OF True] obtain a where "create_mece_map lib r = Inr a" ..
    with True R(1) show ?thesis by simp
  next
    case False
    with R(1) show ?thesis by simp
  qed
  have d: "file_disposition res = None \<longleftrightarrow> depth config \<notin> set [''standard'', ''full'']"
    using R(4) by simp
  have a: "accuracy_audit res = None \<longleftrightarrow> \<not> (depth config = ''full'' \<and> enable_citations config)"
    using R(3) by simp
  have q: "depth config = ''quick'' \<longrightarrow>
            mece_content_map res = None \<and> accuracy_audit res = None \<and> file_disposition res = None"
    using m d a by simp
  have s: "depth config = ''standard'' \<longrightarrow>
            mece_content_map res \<noteq> None \<and> file_disposition res \<noteq> None \<and> accuracy_audit res = None"
    using m d a by simp
  have f: "accuracy_audit res \<noteq> None \<longrightarrow> depth config = ''full''"
    using a by auto
  show ?thesis
    by (intro conjI) (fact m, fact d, fact a, fact q, fact s, fact f)
qed

lemma sample_repo_rules_report:
  "\<not> isl (generate_rules_report blank_lib sample_repo (detect_context sample_repo))"
  by code_simp

lemma sample_repo_mece_map: "\<not> isl (create_mece_map blank_lib sample_repo)"
  by code_simp

lemma sample_repo_run_returns: "\<exists>res. run blank_lib now config sample_repo = Inr res"
proof -
  from sample_repo_rules_report obtain rr where
    rr: "generate_rules_report blank_lib sample_repo (detect_context sample_repo) = Inr rr"
    by (cases "generate_rules_report blank_lib sample_repo (detect_context sample_repo)") auto
  from sample_repo_mece_map obtain m where m: "create_mece_map blank_lib sample_repo = Inr m"
    by (cases "create_mece_map blank_lib sample_repo") auto
  show ?thesis by (rule run_returns[OF rr]) (use m in blast)
qed

theorem run_skipped_stages_absent_witness:
  "(\<exists>res. run blank_lib ''2025-01-01T00:00:00'' (audit_config ''quick'') sample_repo = Inr res
        \<and> mece_content_map res = None \<and> accuracy_audit res = None \<and> file_disposition res = None)
 \<and> (\<exists>res. run blank_lib ''2025-01-01T00:00:00'' (audit_config ''standard'') sample_repo = Inr res
        \<and> mece_content_map res \<noteq> None \<and> file_disposition res \<noteq> None \<and> accuracy_audit res = None)
 \<and> (\<exists>res. run blank_lib ''2025-01-01T00:00:00'' (audit_config ''full'') sample_repo = Inr res
        \<and> mece_content_map res \<noteq> None \<and> file_disposition res \<noteq> None \<and> accuracy_audit res \<noteq> None)"
proof -
  obtain q where q: "run blank_lib ''2025-01-01T00:00:00'' (audit_config ''quick'') sample_repo = Inr q"
    using sample_repo_run_returns by blast
  obtain s where s: "run blank_lib ''2025-01-01T00:00:00'' (audit_config ''standard'') sample_repo = Inr s"
    using sample_repo_run_returns by blast
  obtain f where f: "run blank_lib ''2025-01-01T00:00:00'' (audit_config ''full'') sample_repo = Inr f"
    using sample_repo_run_returns by blast
  have "mece_content_map q = None \<and> accuracy_audit q = None \<and> file_disposition q = None"
    using run_skipped_stages_absent[OF q] by (simp add: audit_config_def)
  moreover have "mece_content_map s \<noteq> None \<and> file_disposition s \<noteq> None \<and> accuracy_audit s = None"
    using run_skipped_stages_absent[OF s] by (simp add: audit_config_def)
  moreover have "mece_content_map f \<noteq> None \<and> file_disposition f \<noteq> None \<and> accuracy_audit f \<noteq> None"
    using run_skipped_stages_absent[OF f] by (simp add: audit_config_def)
  ultimately show ?thesis using q s f by blast
qed

section \<open>Floating-point arithmetic\<close>

text \<open>
  The rounding of each operation is visible in the results: the mean of the
  floats 1/5 and 4/10 lies above the float 0.3, the mean of 2/5 and 3/4 rounds
  to 0.57, and 23 rules out of 80 print as 28.7 percent.
\<close>

lemma to_double_three_tenths: "to_double (3 / 10) = 5404319552844595 / 18014398509481984"
  by code_simp

lemma float_mean_above_threshold:
  "to_double (3 / 10) < float_div (float_add (int_truediv 1 5) (int_truediv 4 10)) 2"
  by code_simp

lemma float_mean_rounds_down:
  "py_round2 (float_div (float_add (int_truediv 2 5) (int_truediv 3 4)) 2) = to_double (57 / 100)"
  by code_simp

lemma efficiency_string_23_of_80: "efficiency_string 23 80 = ''28.7%''"
  by code_simp

section \<open>Overlap detection\<close>

lemma overlap_score_of_commute: "overlap_score_of a b = overlap_score_of b a"
proof -
  have k: "keyword_tags a \<inter> keyword_tags b = keyword_tags b \<inter> keyword_tags a"
    by (rule Int_commute)
  have t: "topics a \<inter> topics b = topics b \<inter> topics a"
    by (rule Int_commute)
  have mk: "max (card (keyword_tags a)) (card (keyword_tags b))
          = max (card (keyword_tags b)) (card (keyword_tags a))"
    by (rule max.commute)
  have mt: "max (card (topics a)) (card (topics b)) = max (card (topics b)) (card (topics a))"
    by (rule max.commute)
  show ?thesis
    unfolding overlap_score_of_def Let_def k t mk mt ..
qed

lemma compare_pair_report:
  assumes "compare_pair a b = Inr xs" and "x \<in> set xs"
  shows "category a = category b \<and> file1 x = file_path a \<and> file2 x = file_path b
       \<and> (\<exists>s. overlap_score_of a b = Inr s \<and> to_double (3 / 10) < s
              \<and> overlap_score x = py_round2 s)"
  using assms
  by (auto simp: compare_pair_def Let_def split: if_splits sum.splits)

lemma overlap_pairs_origin:
  assumes "overlap_pairs analyses = Inr overlaps" and "x \<in> set overlaps"
  shows "\<exists>i j xs. i < j \<and> j < length analyses
           \<and> compare_pair (analyses ! i) (analyses ! j) = Inr xs \<and> x \<in> set xs"
  using assms
proof (induction analyses arbitrary: overlaps)
  case Nil
  then show ?case by simp
next
  case (Cons a1 rest)
  from Cons.prems(1) obtain found later where
    found: "collect (compare_pair a1) rest = Inr found"
    and later: "overlap_pairs rest = Inr later"
    and ov: "overlaps = concat found @ later"
    by (auto split: sum.splits)
  from Cons.prems(2) ov consider (here) "x \<in> set (concat found)" | (there) "x \<in> set later"
    by auto
  then show ?case
  proof cases
    case here
    then obtain xs where xs: "xs \<in> set found" "x \<in> set xs" by auto
    from collect_member_rev[OF found xs(1)] obtain a2 where
      a2: "a2 \<in> set rest" "compare_pair a1 a2 = Inr xs" by blast
    from a2(1) obtain k where k: "k < length rest" "rest ! k = a2"
      by (auto simp: in_set_conv_nth)
    have "0 < Suc k \<and> Suc k < length (a1 # rest)
        \<and> compare_pair ((a1 # rest) ! 0) ((a1 # rest) ! Suc k) = Inr xs \<and> x \<in> set xs"
      using k a2(2) xs(2) by simp
    then show ?thesis by blast
  next
    case there
    from Cons.IH[OF later there] obtain i j xs where
      ij: "i < j" "j < length rest" "compare_pair (rest ! i) (rest ! j) = Inr xs" "x \<in> set xs"
      by blast
    then have "Suc i < Suc j \<and> Suc j < length (a1 # rest)
        \<and> compare_pair ((a1 # rest) ! Suc i) ((a1 # rest) ! Suc j) = Inr xs \<and> x \<in> set xs"
      by simp
    then show ?thesis by blast
  qed
qed

lemma find_overlaps_set:
  "find_overlaps analyses = Inr overlaps \<Longrightarrow>
   \<exists>found. overlap_pairs analyses = Inr found \<and> set overlaps = set found"
  by (auto simp: find_overlaps_def split: sum.splits)

text \<open>
  C7: the score of a pair does not depend on the order of the two documents
  (nor does its failure); every report of \<open>find_overlaps\<close> is about two
  documents at different positions \<open>i < j\<close> of the analysed list, whose
  categories are equal, and carries the score of that pair rounded to two
  decimals; and when no two documents of the list have the same path, the two
  paths of a report differ.
\<close>

theorem find_overlaps_symmetric_same_category:
  "overlap_score_of a b = overlap_score_of b a
   \<and> (find_overlaps analyses = Inr overlaps \<longrightarrow>
       (\<forall>x \<in> set overlaps.
          (\<exists>i j s. i < j \<and> j < length analyses
             \<and> file1 x = file_path (analyses ! i) \<and> file2 x = file_path (analyses ! j)
             \<and> category (analyses ! i) = category (analyses ! j)
             \<and> overlap_score_of (analyses ! i) (analyses ! j) = Inr s
             \<and> overlap_score x = py_round2 s)
          \<and> (distinct (map file_path analyses) \<longrightarrow> file1 x \<noteq> file2 x)))"
proof (intro conjI impI ballI)
  show "overlap_score_of a b = overlap_score_of b a"
    by (rule overlap_score_of_commute)
next
  fix x
  assume res: "find_overlaps analyses = Inr overlaps" and x: "x \<in> set overlaps"
  from find_overlaps_set[OF res] x obtain found where
    "overlap_pairs analyses = Inr found" "x \<in> set found" by auto
  from overlap_pairs_origin[OF this] obtain i j xs where
    ij: "i < j" "j < length analyses"
    and cp: "compare_pair (analyses ! i) (analyses ! j) = Inr xs" "x \<in> set xs"
    by blast
  from compare_pair_report[OF cp] obtain s where
    rep: "category (analyses ! i) = category (analyses ! j)"
      "file1 x = file_path (analyses ! i)" "file2 x = file_path (analyses ! j)"
      "overlap_score_of (analyses ! i) (analyses ! j) = Inr s" "overlap_score x = py_round2 s"
    by blast
  with ij show "\<exists>i j s. i < j \<and> j < length analyses
             \<and> file1 x = file_path (analyses ! i) \<and> file2 x = file_path (analyses ! j)
             \<and> category (analyses ! i) = category (analyses ! j)
             \<and> overlap_score_of (analyses ! i) (analyses ! j) = Inr s
             \<and> overlap_score x = py_round2 s"
    by blast
  assume dist: "distinct (map file_path analyses)"
  from ij have len: "i < length (map file_path analyses)" "j < length (map file_path analyses)"
    and ne: "i \<noteq> j"
    by simp_all
  from nth_eq_iff_index_eq[OF dist len] ne
  have "map file_path analyses ! i \<noteq> map file_path analyses ! j" by blast
  with ij rep show "file1 x \<noteq> file2 x" by simp
qed

lemma tagged_docs_overlap: "find_overlaps [tagged_doc_a, tagged_doc_b] = Inr [tagged_overlap]"
  by code_simp

theorem find_overlaps_symmetric_same_category_witness:
  "overlap_score_of tagged_doc_a tagged_doc_b = overlap_score_of tagged_doc_b tagged_doc_a
   \<and> find_overlaps [tagged_doc_a, tagged_doc_b] = Inr [tagged_overlap]
   \<and> (\<exists>i j s. i < j \<and> j < length [tagged_doc_a, tagged_doc_b]
         \<and> file1 tagged_overlap = file_path ([tagged_doc_a, tagged_doc_b] ! i)
         \<and> file2 tagged_overlap = file_path ([tagged_doc_a, tagged_doc_b] ! j)
         \<and> category ([tagged_doc_a, tagged_doc_b] ! i) = category ([tagged_doc_a, tagged_doc_b] ! j)
         \<and> overlap_score_of ([tagged_doc_a, tagged_doc_b] ! i) ([tagged_doc_a, tagged_doc_b] ! j) = Inr s
         \<and> overlap_score tagged_overlap = py_round2 s)
   \<and> file1 tagged_overlap \<noteq> file2 tagged_overlap"
proof -
  have d: "distinct (map file_path [tagged_doc_a, tagged_doc_b])"
    by (simp add: tagged_doc_a_def tagged_doc_b_def plain_doc_a_def plain_doc_b_def)
  have m: "tagged_overlap \<in> set [tagged_overlap]" by simp
  from find_overlaps_symmetric_same_category
         [of tagged_doc_a tagged_doc_b "[tagged_doc_a, tagged_doc_b]" "[tagged_overlap]"]
       tagged_docs_overlap d m
  show ?thesis by blast
qed

section \<open>Division by zero in the overlap score\<close>

lemma overlap_score_of_fails_iff:
  "overlap_score_of a b = Inl e \<longleftrightarrow>
     e = ZeroDivisionError
     \<and> (max (card (keyword_tags a)) (card (keyword_tags b)) = 0
        \<or> max (card (topics a)) (card (topics b)) = 0)"
  by (auto simp: overlap_score_of_def Let_def py_truediv_def split: sum.splits if_splits)

text \<open>
  C2 (the code at the failing input): the two documents share three topics, so
  the pair passes the pre-filter, and neither has a keyword, so the keyword
  ratio divides by \<open>max(0, 0)\<close>.
\<close>

theorem find_overlaps_divides_by_zero:
  "find_overlaps [plain_doc_a, plain_doc_b] = Inl ZeroDivisionError"
  by code_simp

section \<open>Gap detection\<close>

lemma find_gaps_categories:
  "g \<in> set (find_gaps lib analyses) \<Longrightarrow>
   gap_category g = ''base'' \<or> startswith (gap_category g) ''language/''"
  by (auto simp: find_gaps_def base_gaps_def language_gaps_for_def Let_def startswith_def
      split: if_splits)

text \<open>
  C4 (the code at the failing input): for an empty corpus, which has no document
  for any framework or cloud provider of the table, the gaps found are the nine
  of \<open>base\<close> and one per language; none is about a framework or a provider.
\<close>

theorem find_gaps_skips_frameworks_and_cloud:
  "map gap_category (find_gaps blank_lib []) =
     [''base'', ''base'', ''base'', ''base'', ''base'', ''base'', ''base'', ''base'', ''base'',
      ''language/python'', ''language/typescript'', ''language/go'', ''language/java'',
      ''language/rust'']"
  by code_simp

section \<open>Unreadable documents\<close>

lemma error_of_simps [simp]:
  "error_of (Inl e) = Some e" "error_of (Inr v) = None"
  by (simp_all add: error_of_def)

lemma error_of_None_iff: "error_of res = None \<longleftrightarrow> (\<exists>v. res = Inr v)"
  by (cases res) auto

lemma error_of_Some_iff: "error_of res = Some e \<longleftrightarrow> res = Inl e"
  by (cases res) auto

lemma first_unreadable_append:
  "first_unreadable (xs @ ys) =
     (case first_unreadable xs of Some e \<Rightarrow> Some e | None \<Rightarrow> first_unreadable ys)"
  by (induction xs) (auto split: sum.splits)

lemma first_unreadable_Some_mem:
  "first_unreadable fs = Some e \<Longrightarrow> \<exists>f \<in> set fs. md_data f = Inl e"
  by (induction fs) (auto split: sum.splits)

lemma first_unreadable_None_iff:
  "first_unreadable fs = None \<longleftrightarrow> (\<forall>f \<in> set fs. \<exists>content. md_data f = Inr content)"
  by (induction fs) (auto split: sum.splits)

lemma error_of_analyze_file: "error_of (analyze_file lib dir f cat) = error_of (md_data f)"
  by (simp add: analyze_file_def Let_def split: sum.splits)

lemma error_of_collect_analyze_file:
  "error_of (collect (\<lambda>md. analyze_file lib dir md cat) mds) = first_unreadable mds"
proof (induction mds)
  case Nil
  show ?case by simp
next
  case (Cons f fs)
  show ?case
  proof (cases "md_data f")
    case (Inl e)
    then show ?thesis by (simp add: analyze_file_def)
  next
    case (Inr content)
    then obtain a where "analyze_file lib dir f cat = Inr a"
      by (simp add: analyze_file_def Let_def)
    with Inr Cons.IH show ?thesis
      by (cases "collect (\<lambda>md. analyze_file lib dir md cat) fs") auto
  qed
qed

lemma error_of_analyze_folder:
  "error_of (analyze_folder lib topdir cat_prefix folder) =
     first_unreadable (if is_dir folder then md_files folder else [])"
  by (simp add: analyze_folder_def error_of_collect_analyze_file)

lemma error_of_collect_analyze_folder:
  "error_of (collect (analyze_folder lib topdir cat_prefix) folders) =
     first_unreadable (concat (map md_files (filter is_dir folders)))"
proof (induction folders)
  case Nil
  show ?case by simp
next
  case (Cons folder folders)
  show ?case
  proof (cases "analyze_folder lib topdir cat_prefix folder")
    case (Inl e)
    with error_of_analyze_folder[of lib topdir cat_prefix folder]
    have "first_unreadable (if is_dir folder then md_files folder else []) = Some e" by simp
    with Inl show ?thesis by (auto simp: first_unreadable_append split: if_splits)
  next
    case (Inr found)
    with error_of_analyze_folder[of lib topdir cat_prefix folder]
    have "first_unreadable (if is_dir folder then md_files folder else []) = None" by simp
    with Inr Cons.IH show ?thesis
      by (cases "collect (analyze_folder lib topdir cat_prefix) folders")
         (auto simp: first_unreadable_append split: if_splits)
  qed
qed

lemma error_of_analyze_folders:
  "error_of (analyze_folders lib topdir cat_prefix d) = first_unreadable (folder_files d)"
proof (cases d)
  case None
  then show ?thesis by (simp add: analyze_folders_def folder_files_def)
next
  case (Some folders)
  with error_of_collect_analyze_folder[of lib topdir cat_prefix folders] show ?thesis
    by (cases "collect (analyze_folder lib topdir cat_prefix) folders")
       (auto simp: analyze_folders_def folder_files_def)
qed

lemma error_of_analyze_base:
  "error_of (analyze_base lib d) = first_unreadable (case d of None \<Rightarrow> [] | Some mds \<Rightarrow> mds)"
  by (cases d) (simp_all add: analyze_base_def error_of_collect_analyze_file)

lemma error_of_analyze_all_files:
  "error_of (analyze_all_files lib r) = first_unreadable (corpus_files r)"
proof -
  note b = error_of_analyze_base[of lib "base_dir r"]
  note l = error_of_analyze_folders[of lib "''languages''" "''language''" "languages_dir r"]
  note f = error_of_analyze_folders[of lib "''frameworks''" "''framework''" "frameworks_dir r"]
  note c = error_of_analyze_folders[of lib "''cloud''" "''cloud''" "cloud_dir r"]
  show ?thesis
    unfolding analyze_all_files_def corpus_files_def first_unreadable_append
      b[symmetric] l[symmetric] f[symmetric] c[symmetric]
    by (auto simp: error_of_def split: sum.splits)
qed

text \<open>
  C5 (as stated): an unreadable document is skipped and the others are still
  analysed. The code opens each document without handling the exception: for a
  base directory holding a readable document and then an unreadable one, the
  analysis returns nothing but the exception of the second.
\<close>

theorem analyze_aborts_on_unreadable_document:
  "analyze blank_lib unreadable_repo = Inl (UnicodeDecodeError ''base/bad.md'')"
  by code_simp

text \<open>
  C5 (amended): if a document of the corpus cannot be read, the analysis of the
  corpus fails as a whole: \<open>_analyze_all_files\<close> and \<open>analyze\<close> raise the
  exception of the first unreadable document in scan order, so no analysis of
  any document is returned.
\<close>

theorem analyze_raises_first_read_error:
  assumes "f \<in> set (corpus_files r)" and "md_data f = Inl e"
  shows "\<exists>e'. first_unreadable (corpus_files r) = Some e'
            \<and> (\<exists>f' \<in> set (corpus_files r). md_data f' = Inl e')
            \<and> analyze_all_files lib r = Inl e'
            \<and> analyze lib r = Inl e'"
proof -
  have "first_unreadable (corpus_files r) \<noteq> None"
  proof
    assume "first_unreadable (corpus_files r) = None"
    with assms(1) obtain content where "md_data f = Inr content"
      unfolding first_unreadable_None_iff by blast
    with assms(2) show False by simp
  qed
  then obtain e' where e': "first_unreadable (corpus_files r) = Some e'" by auto
  from first_unreadable_Some_mem[OF e'] have mem: "\<exists>f' \<in> set (corpus_files r). md_data f' = Inl e'" .
  from e' have "error_of (analyze_all_files lib r) = Some e'"
    by (simp add: error_of_analyze_all_files)
  then have all: "analyze_all_files lib r = Inl e'"
    by (simp only: error_of_Some_iff)
  then have "analyze lib r = Inl e'" by (simp add: analyze_def)
  with e' mem all show ?thesis by blast
qed

theorem analyze_raises_first_read_error_witness:
  "first_unreadable (corpus_files unreadable_repo) = Some (UnicodeDecodeError ''base/bad.md'')
   \<and> analyze_all_files blank_lib unreadable_repo = Inl (UnicodeDecodeError ''base/bad.md'')
   \<and> analyze blank_lib unreadable_repo = Inl (UnicodeDecodeError ''base/bad.md'')"
proof -
  let ?bad = "\<lparr> md_name = ''bad.md'', md_data = Inl (UnicodeDecodeError ''base/bad.md'') \<rparr>"
  have fu: "first_unreadable (corpus_files unreadable_repo) = Some (UnicodeDecodeError ''base/bad.md'')"
    by (simp add: corpus_files_def unreadable_repo_def folder_files_def)
  have mem: "?bad \<in> set (corpus_files unreadable_repo)"
    by (simp add: corpus_files_def unreadable_repo_def folder_files_def)
  have err: "md_data ?bad = Inl (UnicodeDecodeError ''base/bad.md'')" by simp
  from analyze_raises_first_read_error[OF mem err, of blank_lib] fu show ?thesis by auto
qed

section \<open>Empty corpus\<close>

lemma analyze_all_files_empty:
  assumes "corpus_files r = []"
  shows "analyze_all_files lib r = Inr []"
proof -
  from assms have b: "(case base_dir r of None \<Rightarrow> [] | Some mds \<Rightarrow> mds) = []"
    and l: "folder_files (languages_dir r) = []"
    and f: "folder_files (frameworks_dir r) = []"
    and c: "folder_files (cloud_dir r) = []"
    by (simp_all add: corpus_files_def)
  have base: "analyze_base lib (base_dir r) = Inr []"
    using b by (cases "base_dir r") (simp_all add: analyze_base_def)
  have folders: "analyze_folders lib topdir cat_prefix d = Inr []" if "folder_files d = []"
    for topdir cat_prefix d
  proof (cases d)
    case None
    then show ?thesis by (simp add: analyze_folders_def)
  next
    case (Some folders)
    with that have e: "\<And>folder. folder \<in> set folders \<Longrightarrow> is_dir folder \<Longrightarrow> md_files folder = []"
      by (auto simp: folder_files_def)
    have "collect (analyze_folder lib topdir cat_prefix) folders = Inr (map (\<lambda>folder. []) folders)"
      using e
    proof (induction folders)
      case Nil
      show ?case by simp
    next
      case (Cons folder folders)
      have "analyze_folder lib topdir cat_prefix folder = Inr []"
        using Cons.prems[of folder] by (simp add: analyze_folder_def)
      with Cons show ?case by simp
    qed
    with Some show ?thesis by (simp add: analyze_folders_def)
  qed
  show ?thesis
    by (simp add: analyze_all_files_def base folders[OF l] folders[OF f] folders[OF c])
qed

lemma find_overlaps_empty: "find_overlaps [] = Inr []"
  by (simp add: find_overlaps_def)

lemma topic_found_empty:
  "set_iter lib {} = [] \<Longrightarrow> expected \<noteq> [] \<Longrightarrow> \<not> topic_found lib expected {}"
  by (simp add: topic_found_def py_replace_def)

lemma base_gaps_empty:
  assumes "set_iter lib {} = []"
  shows "base_gaps lib [] = map base_gap expected_topics_base"
proof -
  have "filter (\<lambda>expected. \<not> topic_found lib expected {}) expected_topics_base = expected_topics_base"
    by (rule filter_True) (auto simp: expected_topics_base_def topic_found_empty[OF assms])
  then show ?thesis
    by (simp add: base_gaps_def union_topics_def base_gap_def[abs_def])
qed

lemma find_gaps_empty:
  assumes "set_iter lib {} = []"
  shows "find_gaps lib [] =
           map base_gap expected_topics_base
         @ map (\<lambda>(lang, expected_topics).
                  \<lparr> gap_category = ''language/'' @ lang, missing_topics = expected_topics,
                    recommendation = ''Add '' @ lang @ '' language support with rules covering ''
                       @ py_join '', '' expected_topics \<rparr>)
             expected_topics_language"
  by (simp add: find_gaps_def base_gaps_empty[OF assms] language_gaps_for_def lang_analyses_def
      expected_topics_language_def)

lemma mece_score_14_gaps: "calculate_mece_score 0 14 0 = ''58% - Fair''"
  by code_simp

lemma score_of_14_gaps: "str_nat (nat (max 0 (100 - 3 * int 14))) = ''58''"
  by code_simp

text \<open>
  C6: for every corpus without documents, the analysis returns a result with no
  overlap and 14 gaps (so at least 9), among which the gaps of category
  \<open>base\<close> are exactly the nine expected base topics, one gap each; and the
  number in the composite score is \<open>max(0, 100 - 3 * gapCount)\<close>, here 58.
\<close>

theorem analyze_empty_corpus:
  assumes "corpus_files r = []" and "set_iter lib {} = []"
  shows "\<exists>res. analyze lib r = Inr res
           \<and> files_analyzed res = 0
           \<and> total_overlaps res = 0
           \<and> total_gaps res = 14
           \<and> 9 \<le> total_gaps res
           \<and> filter (\<lambda>g. gap_category g = ''base'') (gap_reports res) = map base_gap expected_topics_base
           \<and> mece_score (summary res)
               = str_nat (nat (max 0 (100 - 3 * int (total_gaps res)))) @ ''% - Fair''"
proof -
  let ?gaps = "find_gaps lib []"
  let ?res = "\<lparr> files_analyzed = 0, total_overlaps = 0, total_gaps = length ?gaps,
                overlap_reports = [], gap_reports = ?gaps,
                summary = generate_summary [] [] ?gaps \<rparr>"
  have res: "analyze lib r = Inr ?res"
    by (simp add: analyze_def analyze_all_files_empty[OF assms(1)] find_overlaps_empty Let_def)
  have len: "length ?gaps = 14"
    by (simp add: find_gaps_empty[OF assms(2)] expected_topics_base_def expected_topics_language_def)
  have base: "filter (\<lambda>g. gap_category g = ''base'') ?gaps = map base_gap expected_topics_base"
    by (simp add: find_gaps_empty[OF assms(2)] expected_topics_base_def expected_topics_language_def
        base_gap_def)
  have score: "mece_score (generate_summary [] [] ?gaps) = ''58% - Fair''"
    by (simp add: generate_summary_def len mece_score_14_gaps)
  from res len base score score_of_14_gaps show ?thesis by simp
qed

lemma empty_corpus_repo_files: "corpus_files empty_corpus_repo = []"
  by (simp add: corpus_files_def empty_corpus_repo_def folder_files_def)

lemma blank_lib_iter_empty: "set_iter blank_lib {} = []"
  by (simp add: blank_lib_def)

theorem analyze_empty_corpus_witness:
  "\<exists>res. analyze blank_lib empty_corpus_repo = Inr res
     \<and> files_analyzed res = 0 \<and> total_overlaps res = 0 \<and> total_gaps res = 14
     \<and> mece_score (summary res) = ''58% - Fair''"
  using analyze_empty_corpus[OF empty_corpus_repo_files blank_lib_iter_empty] score_of_14_gaps
  by auto

end
